theory Spec2Isabelle
  imports Complex_Main "HOL-Library.AList"
begin

section \<open>TTL cache\<close>

text \<open>
  The class \<open>TTLCache\<close> keeps a dictionary from keys to pairs (value, absolute expiry).
  The wall clock read by \<open>time.time()\<close> is an explicit argument of every operation, and
  each operation returns the dictionary it leaves behind. \<open>get\<close> answers \<open>None\<close> where the
  Python method returns \<open>None\<close> and \<open>Some val\<close> where it returns the stored value.
\<close>

type_synonym 'v ttl_cache = "string \<rightharpoonup> ('v \<times> real)"

definition CACHE_TTL :: real where
  "CACHE_TTL = 60"

definition cache_get :: "'v ttl_cache \<Rightarrow> real \<Rightarrow> string \<Rightarrow> 'v ttl_cache \<times> 'v option" where
  "cache_get d now key =
     (case d key of
        None \<Rightarrow> (d, None)
      | Some (val, expiry) \<Rightarrow>
          if now > expiry then (d(key := None), None) else (d, Some val))"

definition cache_set :: "'v ttl_cache \<Rightarrow> real \<Rightarrow> string \<Rightarrow> 'v \<Rightarrow> real \<Rightarrow> 'v ttl_cache" where
  "cache_set d now key val ttl = d(key \<mapsto> (val, now + ttl))"

definition cache_clear :: "'v ttl_cache \<Rightarrow> 'v ttl_cache" where
  "cache_clear d = Map.empty"

section \<open>Rate limiter\<close>

text \<open>
  \<open>check_rate_limit\<close> keeps one deque of admission times per client address in a
  \<open>defaultdict\<close>: reading a missing address creates an empty deque. The limit and the
  period are the module constants \<open>RATE_LIMIT\<close> and \<open>RATE_PERIOD\<close>; the body is
  written over both so that other configurations can be run, and \<open>check_rate_limit\<close>
  fixes them to the module's values. A raised \<open>HTTPException\<close> is the left summand.
\<close>

datatype http_error = HTTPException nat string

definition RATE_LIMIT :: nat where
  "RATE_LIMIT = 30"

definition RATE_PERIOD :: nat where
  "RATE_PERIOD = 60"

definition digit_char :: "nat \<Rightarrow> char" where
  "digit_char d = ''0123456789'' ! d"

fun show_nat :: "nat \<Rightarrow> string" where
  "show_nat n = (if n < 10 then [digit_char n] else show_nat (n div 10) @ [digit_char (n mod 10)])"

declare show_nat.simps [simp del]

text \<open>The loop \<open>while dq and dq[0] <= now - RATE_PERIOD: dq.popleft()\<close>.\<close>

fun popleft_expired :: "real \<Rightarrow> nat \<Rightarrow> real list \<Rightarrow> real list" where
  "popleft_expired now period [] = []"
| "popleft_expired now period (t # ts) =
     (if t \<le> now - real period then popleft_expired now period ts else t # ts)"

definition rate_limit_detail :: "nat \<Rightarrow> nat \<Rightarrow> string" where
  "rate_limit_detail limit period =
     ''Rate limit exceeded ('' @ show_nat limit @ '' req / '' @ show_nat period @ ''s)''"

type_synonym rate_buckets = "string \<rightharpoonup> real list"

definition check_rate_limit_with ::
  "nat \<Rightarrow> nat \<Rightarrow> rate_buckets \<Rightarrow> string \<Rightarrow> real \<Rightarrow> rate_buckets \<times> (http_error + bool)" where
  "check_rate_limit_with limit period buckets ip now =
     (let dq = (case buckets ip of None \<Rightarrow> [] | Some q \<Rightarrow> q);
          dq' = popleft_expired now period dq
      in if length dq' \<ge> limit
         then (buckets(ip \<mapsto> dq'), Inl (HTTPException 429 (rate_limit_detail limit period)))
         else (buckets(ip \<mapsto> dq' @ [now]), Inr True))"

definition check_rate_limit :: "rate_buckets \<Rightarrow> string \<Rightarrow> real \<Rightarrow> rate_buckets \<times> (http_error + bool)" where
  "check_rate_limit = check_rate_limit_with RATE_LIMIT RATE_PERIOD"

text \<open>A client's successive calls, each at its own clock reading, threading the buckets.\<close>

fun admit_calls ::
  "nat \<Rightarrow> nat \<Rightarrow> rate_buckets \<Rightarrow> string \<Rightarrow> real list \<Rightarrow> rate_buckets \<times> (http_error + bool) list" where
  "admit_calls limit period buckets ip [] = (buckets, [])"
| "admit_calls limit period buckets ip (t # ts) =
     (let (b1, r) = check_rate_limit_with limit period buckets ip t;
          (b2, rs) = admit_calls limit period b1 ip ts
      in (b2, r # rs))"

definition bucket_of :: "rate_buckets \<Rightarrow> string \<Rightarrow> real list" where
  "bucket_of buckets ip = (case buckets ip of None \<Rightarrow> [] | Some q \<Rightarrow> q)"

text \<open>
  The admission rule in the specification's words: drop every timestamp that is a full
  window old or older, admit and record the call when fewer than \<open>limit\<close> remain, reject
  with status 429 otherwise.
\<close>

definition admit_spec ::
  "nat \<Rightarrow> nat \<Rightarrow> rate_buckets \<Rightarrow> string \<Rightarrow> real \<Rightarrow> rate_buckets \<times> (http_error + bool)" where
  "admit_spec limit period buckets ip now =
     (let kept = filter (\<lambda>t. now - real period < t) (bucket_of buckets ip)
      in if length kept < limit
         then (buckets(ip \<mapsto> kept @ [now]), Inr True)
         else (buckets(ip \<mapsto> kept), Inl (HTTPException 429 (rate_limit_detail limit period))))"

fun admit_spec_calls ::
  "nat \<Rightarrow> nat \<Rightarrow> rate_buckets \<Rightarrow> string \<Rightarrow> real list \<Rightarrow> rate_buckets \<times> (http_error + bool) list" where
  "admit_spec_calls limit period buckets ip [] = (buckets, [])"
| "admit_spec_calls limit period buckets ip (t # ts) =
     (let (b1, r) = admit_spec limit period buckets ip t;
          (b2, rs) = admit_spec_calls limit period b1 ip ts
      in (b2, r # rs))"

section \<open>Python values and the operations the fetcher uses on them\<close>

text \<open>
  Decoded JSON as Python sees it. A dictionary is an association list in insertion order;
  lookups take the first binding of a key and \<open>AList.update\<close> overwrites it in place or
  appends a new key at the end, as a Python \<open>dict\<close> does.
\<close>

datatype pyfloat = Finite real | PosInf | NegInf | NaN

datatype json =
    JNull
  | JBool bool
  | JInt int
  | JFloat pyfloat
  | JStr string
  | JList "json list"
  | JDict "(string \<times> json) list"

datatype py_error =
  AttributeError | TypeError | KeyError | ValueError | OverflowError | UpstreamError

definition py_bind :: "py_error + 'a \<Rightarrow> ('a \<Rightarrow> py_error + 'b) \<Rightarrow> py_error + 'b" where
  "py_bind m f = (case m of Inl e \<Rightarrow> Inl e | Inr v \<Rightarrow> f v)"

text \<open>Truth value of an object, as \<open>if x\<close>, \<open>not x\<close> and \<open>x or y\<close> test it.\<close>

fun truthy :: "json \<Rightarrow> bool" where
  "truthy JNull = False"
| "truthy (JBool b) = b"
| "truthy (JInt i) = (i \<noteq> 0)"
| "truthy (JFloat f) = (f \<noteq> Finite 0)"
| "truthy (JStr s) = (s \<noteq> [])"
| "truthy (JList xs) = (xs \<noteq> [])"
| "truthy (JDict d) = (d \<noteq> [])"

text \<open>\<open>a or b\<close>: the right operand is evaluated, and can raise, only when the left is falsy.\<close>

definition py_or :: "py_error + json \<Rightarrow> py_error + json \<Rightarrow> py_error + json" where
  "py_or ma mb = py_bind ma (\<lambda>a. if truthy a then Inr a else mb)"

fun is_dict :: "json \<Rightarrow> bool" where
  "is_dict (JDict d) = True"
| "is_dict _ = False"

fun is_str :: "json \<Rightarrow> bool" where
  "is_str (JStr s) = True"
| "is_str _ = False"

fun starts_with :: "string \<Rightarrow> string \<Rightarrow> bool" where
  "starts_with [] s = True"
| "starts_with (c # cs) [] = False"
| "starts_with (c # cs) (d # ds) = (c = d \<and> starts_with cs ds)"

fun contains :: "string \<Rightarrow> string \<Rightarrow> bool" where
  "contains sub [] = (sub = [])"
| "contains sub (c # cs) = (starts_with sub (c # cs) \<or> contains sub cs)"

text \<open>\<open>k in x\<close> for a string \<open>k\<close>.\<close>

fun py_in :: "string \<Rightarrow> json \<Rightarrow> py_error + bool" where
  "py_in k (JDict d) = Inr (map_of d k \<noteq> None)"
| "py_in k (JStr s) = Inr (contains k s)"
| "py_in k (JList xs) = Inr (JStr k \<in> set xs)"
| "py_in k _ = Inl TypeError"

text \<open>\<open>x[k]\<close> for a string \<open>k\<close>.\<close>

fun py_item :: "json \<Rightarrow> string \<Rightarrow> py_error + json" where
  "py_item (JDict d) k = (case map_of d k of None \<Rightarrow> Inl KeyError | Some v \<Rightarrow> Inr v)"
| "py_item _ k = Inl TypeError"

text \<open>\<open>x.get(k)\<close> and \<open>x.get(k, dflt)\<close>: only a dictionary has the method.\<close>

fun py_get_default :: "json \<Rightarrow> string \<Rightarrow> json \<Rightarrow> py_error + json" where
  "py_get_default (JDict d) k dflt = Inr (case map_of d k of None \<Rightarrow> dflt | Some v \<Rightarrow> v)"
| "py_get_default _ k dflt = Inl AttributeError"

definition py_get :: "json \<Rightarrow> string \<Rightarrow> py_error + json" where
  "py_get x k = py_get_default x k JNull"

text \<open>\<open>x[k] = v\<close>, returning the object after the assignment.\<close>

fun py_setitem :: "json \<Rightarrow> string \<Rightarrow> json \<Rightarrow> py_error + json" where
  "py_setitem (JDict d) k v = Inr (JDict (AList.update k v d))"
| "py_setitem _ k v = Inl TypeError"

text \<open>\<open>x.setdefault(k, dflt)\<close>: the object afterwards and the value returned.\<close>

fun py_setdefault :: "json \<Rightarrow> string \<Rightarrow> json \<Rightarrow> py_error + (json \<times> json)" where
  "py_setdefault (JDict d) k dflt =
     (case map_of d k of
        None \<Rightarrow> Inr (JDict (AList.update k dflt d), dflt)
      | Some v \<Rightarrow> Inr (JDict d, v))"
| "py_setdefault _ k dflt = Inl AttributeError"

subsection \<open>Built-ins on strings\<close>

text \<open>
  A \<open>str\<close> is kept as the bytes of its UTF-8 encoding, so that comparing two strings and
  searching one string in another are the same as on code points. What the built-ins do
  with a string depends on the Unicode tables; they are parameters of the model, as are
  \<open>json.loads\<close> and \<open>round(x, 2)\<close>:
  \<^item> \<open>json_loads s\<close> is \<open>json.loads(s)\<close>, \<open>None\<close> where it raises;
  \<^item> \<open>int_of_str s\<close> is \<open>int(s)\<close>, \<open>None\<close> where it raises \<open>ValueError\<close>;
  \<^item> \<open>str_lower s\<close> is \<open>s.lower()\<close>;
  \<^item> \<open>str_chars s\<close> lists the one-character strings \<open>for c in s\<close> visits;
  \<^item> \<open>round_2 x\<close> is \<open>round(x, 2)\<close>, \<open>None\<close> where it raises.
\<close>

record builtins =
  json_loads :: "string \<Rightarrow> json option"
  int_of_str :: "string \<Rightarrow> int option"
  str_lower :: "string \<Rightarrow> string"
  str_chars :: "string \<Rightarrow> string list"
  round_2 :: "json \<Rightarrow> json option"

text \<open>\<open>for row in x\<close>: the items visited.\<close>

fun py_iter :: "builtins \<Rightarrow> json \<Rightarrow> py_error + json list" where
  "py_iter lib (JList xs) = Inr xs"
| "py_iter lib (JStr s) = Inr (map JStr (str_chars lib s))"
| "py_iter lib (JDict d) = Inr (map (\<lambda>kv. JStr (fst kv)) d)"
| "py_iter lib _ = Inl TypeError"

text \<open>\<open>x.lower()\<close>: only a string has the method.\<close>

fun py_lower :: "builtins \<Rightarrow> json \<Rightarrow> py_error + string" where
  "py_lower lib (JStr s) = Inr (str_lower lib s)"
| "py_lower lib _ = Inl AttributeError"

text \<open>Truncation towards zero, as \<open>int\<close> of a float.\<close>

definition trunc :: "real \<Rightarrow> int" where
  "trunc x = (if 0 \<le> x then \<lfloor>x\<rfloor> else \<lceil>x\<rceil>)"

text \<open>The built-in \<open>int\<close> on an object; \<open>int("")\<close> raises \<open>ValueError\<close>.\<close>

fun py_int :: "builtins \<Rightarrow> json \<Rightarrow> py_error + int" where
  "py_int lib (JInt i) = Inr i"
| "py_int lib (JBool b) = Inr (if b then 1 else 0)"
| "py_int lib (JFloat (Finite x)) = Inr (trunc x)"
| "py_int lib (JFloat NaN) = Inl ValueError"
| "py_int lib (JFloat _) = Inl OverflowError"
| "py_int lib (JStr s) =
     (if s = [] then Inl ValueError
      else case int_of_str lib s of None \<Rightarrow> Inl ValueError | Some i \<Rightarrow> Inr i)"
| "py_int lib _ = Inl TypeError"

text \<open>
  Stand-ins for the built-ins in evaluations: they give Python's answers on the strings
  evaluated below (the words listed, and lower-case ASCII words, which \<open>lower\<close> leaves
  as they are).
\<close>

definition sample_lower :: "string \<Rightarrow> string" where
  "sample_lower s =
     (case map_of [(''Medium'', ''medium''), (''Easy'', ''easy''), (''EASY'', ''easy''),
                   (''Hard'', ''hard''), (''Expert'', ''expert''), (''All'', ''all''),
                   (''CF'', ''cf''), (''LeetCode'', ''leetcode''), (''Duo'', ''duo'')] s of
        None \<Rightarrow> s
      | Some l \<Rightarrow> l)"

definition sample_int :: "string \<Rightarrow> int option" where
  "sample_int s = map_of [(''12'', 12), (''4'', 4), (''7'', 7)] s"

definition sample_lib :: builtins where
  "sample_lib =
     \<lparr>json_loads = (\<lambda>s. None), int_of_str = sample_int, str_lower = sample_lower,
      str_chars = (\<lambda>s. map (\<lambda>c. [c]) s), round_2 = (\<lambda>x. None)\<rparr>"

section \<open>The LeetCode response template\<close>

definition template_message :: string where
  "template_message = ''LeetCode report fetched successfully''"

definition template_error_message :: string where
  "template_error_message =
     ''Detailed problem statistics not available from public APIs. Profile data retrieved successfully.''"

definition template_report :: "string \<Rightarrow> (string \<times> json) list" where
  "template_report username =
     [(''error'', JBool True),
      (''errorMessage'', JStr template_error_message),
      (''username'', JStr username),
      (''totalSolved'', JInt 0),
      (''easySolved'', JInt 0),
      (''mediumSolved'', JInt 0),
      (''hardSolved'', JInt 0),
      (''acceptanceRate'', JInt 0),
      (''ranking'', JNull),
      (''reputation'', JInt 0),
      (''contributionPoints'', JInt 0),
      (''streak'', JInt 0),
      (''totalActiveDays'', JInt 0),
      (''submissionCalendar'', JDict [])]"

definition leetcode_template :: "string \<Rightarrow> json" where
  "leetcode_template username =
     JDict [(''message'', JStr template_message), (''report'', JDict (template_report username))]"

text \<open>\<open>d.update(e)\<close> for a dictionary display \<open>e\<close>, entry by entry.\<close>

definition dict_update :: "(string \<times> json) list \<Rightarrow> (string \<times> json) list \<Rightarrow> (string \<times> json) list" where
  "dict_update d e = foldl (\<lambda>acc kv. AList.update (fst kv) (snd kv) acc) d e"

text \<open>\<open>tpl["report"].update(e)\<close>, written back into the envelope.\<close>

definition update_report :: "json \<Rightarrow> (string \<times> json) list \<Rightarrow> py_error + json" where
  "update_report tpl e =
     py_bind (py_item tpl ''report'') (\<lambda>r.
       case r of
         JDict d \<Rightarrow> py_setitem tpl ''report'' (JDict (dict_update d e))
       | _ \<Rightarrow> Inl AttributeError)"

section \<open>Schema normalizer\<close>

text \<open>
  \<open>_normalize_leetcode_json\<close>, block by block. The Python stores the user record \<open>mu\<close>
  in \<open>out["matchedUser"]\<close> without copying it, so later assignments through
  \<open>out["matchedUser"]\<close> change that one object; here every such assignment is written
  back into \<open>out\<close>, and nothing afterwards reads the record through \<open>j\<close>.
\<close>

text \<open>\<open>"data" in j and isinstance(j["data"], dict)\<close>\<close>

definition has_data_dict :: "json \<Rightarrow> py_error + bool" where
  "has_data_dict j =
     py_bind (py_in ''data'' j) (\<lambda>b.
       if b then py_bind (py_item j ''data'') (\<lambda>d. Inr (is_dict d)) else Inr False)"

definition find_matched_user :: "json \<Rightarrow> py_error + json" where
  "find_matched_user j =
     py_bind (has_data_dict j) (\<lambda>hd.
     py_bind (if hd
              then py_bind (py_item j ''data'') (\<lambda>d.
                     py_or (py_get d ''matchedUser'') (py_get d ''user''))
              else Inr JNull) (\<lambda>mu.
       if \<not> truthy mu
       then py_or (py_or (py_get j ''matchedUser'') (py_get j ''user'')) (py_get j ''profile'')
       else Inr mu))"

text \<open>\<open>out[key][k] = v\<close>\<close>

definition setitem_in :: "json \<Rightarrow> string \<Rightarrow> string \<Rightarrow> json \<Rightarrow> py_error + json" where
  "setitem_in out key k v =
     py_bind (py_item out key) (\<lambda>inner.
     py_bind (py_setitem inner k v) (\<lambda>inner'.
       py_setitem out key inner'))"

text \<open>\<open>if k in mu: out["matchedUser"][k] = mu[k]\<close>, with \<open>mu\<close> the object stored in \<open>out\<close>.\<close>

definition preserve_key :: "string \<Rightarrow> json \<Rightarrow> py_error + json" where
  "preserve_key k out =
     py_bind (py_item out ''matchedUser'') (\<lambda>mu.
     py_bind (py_in k mu) (\<lambda>b.
       if b then py_bind (py_item mu k) (\<lambda>v. setitem_in out ''matchedUser'' k v)
       else Inr out))"

definition store_matched_user :: "json \<Rightarrow> json \<Rightarrow> py_error + json" where
  "store_matched_user mu out =
     (if truthy mu \<and> is_dict mu
      then py_bind (py_setitem out ''matchedUser'' mu) (\<lambda>out1.
           py_bind (preserve_key ''submitStatsGlobal'' out1) (\<lambda>out2.
             preserve_key ''submitStats'' out2))
      else Inr out)"

text \<open>\<open>if k in j: out.setdefault("matchedUser", {})[k] = j.get(k)\<close>\<close>

definition store_top_level_stats :: "string \<Rightarrow> json \<Rightarrow> json \<Rightarrow> py_error + json" where
  "store_top_level_stats k j out =
     py_bind (py_in k j) (\<lambda>b.
       if b
       then py_bind (py_get j k) (\<lambda>v.
            py_bind (py_setdefault out ''matchedUser'' (JDict [])) (\<lambda>(out1, inner).
            py_bind (py_setitem inner k v) (\<lambda>inner'.
              py_setitem out1 ''matchedUser'' inner')))
       else Inr out)"

definition find_contest_ranking :: "json \<Rightarrow> py_error + json" where
  "find_contest_ranking j =
     py_bind (has_data_dict j) (\<lambda>hd.
     py_bind (if hd
              then py_bind (py_item j ''data'') (\<lambda>d. py_get d ''userContestRanking'')
              else Inr JNull) (\<lambda>ucr.
       if \<not> truthy ucr
       then py_or (py_get j ''userContestRanking'') (py_get j ''userContestRankingHistory'')
       else Inr ucr))"

definition store_contest_ranking :: "json \<Rightarrow> json \<Rightarrow> py_error + json" where
  "store_contest_ranking ucr out =
     (if truthy ucr then py_setitem out ''userContestRanking'' ucr else Inr out)"

text \<open>
  \<open>if "submissionCalendar" in j:
      out.setdefault("matchedUser", {}).setdefault("submissionCalendar", j.get("submissionCalendar"))\<close>
\<close>

definition store_calendar :: "json \<Rightarrow> json \<Rightarrow> py_error + json" where
  "store_calendar j out =
     py_bind (py_in ''submissionCalendar'' j) (\<lambda>b.
       if b
       then py_bind (py_setdefault out ''matchedUser'' (JDict [])) (\<lambda>(out1, inner).
            py_bind (py_get j ''submissionCalendar'') (\<lambda>v.
            py_bind (py_setdefault inner ''submissionCalendar'' v) (\<lambda>(inner', _).
              py_setitem out1 ''matchedUser'' inner')))
       else Inr out)"

text \<open>\<open>for k in (...): if k in j: out[k] = j[k]\<close>\<close>

fun copy_top_level :: "string list \<Rightarrow> json \<Rightarrow> json \<Rightarrow> py_error + json" where
  "copy_top_level [] j out = Inr out"
| "copy_top_level (k # ks) j out =
     py_bind (py_in k j) (\<lambda>b.
     py_bind (if b then py_bind (py_item j k) (\<lambda>v. py_setitem out k v) else Inr out) (\<lambda>out1.
       copy_top_level ks j out1))"

definition top_level_fields :: "string list" where
  "top_level_fields = [''acceptanceRate'', ''streak'', ''activeDays'', ''submissionCalendar'']"

definition normalize_leetcode_json :: "json \<Rightarrow> py_error + json" where
  "normalize_leetcode_json j =
     (if \<not> is_dict j then Inr (JDict [])
      else
        py_bind (find_matched_user j) (\<lambda>mu.
        py_bind (store_matched_user mu (JDict [])) (\<lambda>out1.
        py_bind (store_top_level_stats ''submitStatsGlobal'' j out1) (\<lambda>out2.
        py_bind (store_top_level_stats ''submitStats'' j out2) (\<lambda>out3.
        py_bind (find_contest_ranking j) (\<lambda>ucr.
        py_bind (store_contest_ranking ucr out3) (\<lambda>out4.
        py_bind (store_calendar j out4) (\<lambda>out5.
          copy_top_level top_level_fields j out5))))))))"

subsection \<open>Notions used to state the normalizer's properties\<close>

text \<open>Whatever \<open>out\<close> holds under \<open>matchedUser\<close> is a dictionary.\<close>

definition user_ok :: "(string \<times> json) list \<Rightarrow> bool" where
  "user_ok out = (\<forall>m. map_of out ''matchedUser'' = Some m \<longrightarrow> is_dict m)"

text \<open>The user record stored in \<open>out\<close>, empty when there is none.\<close>

definition user_of :: "(string \<times> json) list \<Rightarrow> (string \<times> json) list" where
  "user_of out = (case map_of out ''matchedUser'' of Some (JDict dm) \<Rightarrow> dm | _ \<Rightarrow> [])"

text \<open>The test \<open>mu and isinstance(mu, dict)\<close>.\<close>

definition stored_user :: "json \<Rightarrow> bool" where
  "stored_user mu = (truthy mu \<and> is_dict mu)"

text \<open>
  The user record the normalizer builds from the record \<open>mu\<close> it found in the input
  dictionary \<open>d\<close>: the record itself, then the two top-level statistics keys assigned over
  it, then the top-level calendar added when the record has none.
\<close>

definition user_fields :: "(string \<times> json) list \<Rightarrow> json \<Rightarrow> (string \<times> json) list" where
  "user_fields d mu =
     (let x1 = (case mu of JDict dm \<Rightarrow> dm | _ \<Rightarrow> []);
          x2 = (case map_of d ''submitStatsGlobal'' of None \<Rightarrow> x1
                | Some v \<Rightarrow> AList.update ''submitStatsGlobal'' v x1);
          x3 = (case map_of d ''submitStats'' of None \<Rightarrow> x2
                | Some v \<Rightarrow> AList.update ''submitStats'' v x2)
      in (case map_of d ''submissionCalendar'' of None \<Rightarrow> x3
          | Some v \<Rightarrow> if map_of x3 ''submissionCalendar'' = None
                      then AList.update ''submissionCalendar'' v x3 else x3))"

text \<open>The cases in which the output has a \<open>matchedUser\<close> at all.\<close>

definition user_present :: "(string \<times> json) list \<Rightarrow> json \<Rightarrow> bool" where
  "user_present d mu =
     (stored_user mu \<or> map_of d ''submitStatsGlobal'' \<noteq> None \<or> map_of d ''submitStats'' \<noteq> None
      \<or> map_of d ''submissionCalendar'' \<noteq> None)"

section \<open>Stat extractor\<close>

text \<open>
  \<open>_extract_stats_from_normalized\<close>, block by block, over the built-ins \<open>lib\<close>.
\<close>

text \<open>\<open>x.get(k) or {}\<close>\<close>

definition get_or_empty :: "json \<Rightarrow> string \<Rightarrow> py_error + json" where
  "get_or_empty x k = py_or (py_get x k) (Inr (JDict []))"

text \<open>\<open>ssg.get("acSubmissionNum") or []\<close>\<close>

definition ac_of :: "json \<Rightarrow> py_error + json" where
  "ac_of ssg = py_or (py_get ssg ''acSubmissionNum'') (Inr (JList []))"

text \<open>The three places a statistics array is looked for, lines 280 to 291.\<close>

definition locate_ac :: "json \<Rightarrow> py_error + json" where
  "locate_ac mu =
     py_bind (py_or (py_or (py_get mu ''submitStatsGlobal'') (py_get mu ''submitStats''))
                (Inr (JDict []))) (\<lambda>ssg.
     py_bind (ac_of ssg) (\<lambda>ac.
     py_bind (if \<not> truthy ac
              then py_bind (py_in ''submitStats'' mu) (\<lambda>b.
                     if b then py_bind (get_or_empty mu ''submitStats'') ac_of else Inr ac)
              else Inr ac) (\<lambda>ac1.
       if \<not> truthy ac1
       then py_bind (get_or_empty mu ''submitStatsGlobal'') ac_of
       else Inr ac1)))"

text \<open>
  \<open>try: c = int(row.get("count") or row.get("submissions") or 0)
  except Exception: c = 0\<close>
\<close>

definition row_count :: "builtins \<Rightarrow> json \<Rightarrow> int" where
  "row_count lib row =
     (case py_bind (py_or (py_or (py_get row ''count'') (py_get row ''submissions''))
                      (Inr (JInt 0))) (py_int lib) of
        Inl e \<Rightarrow> 0
      | Inr c \<Rightarrow> c)"

text \<open>\<open>diff = (row.get("difficulty") or "").lower()\<close>\<close>

definition row_difficulty :: "builtins \<Rightarrow> json \<Rightarrow> py_error + string" where
  "row_difficulty lib row =
     py_bind (py_or (py_get row ''difficulty'') (Inr (JStr []))) (py_lower lib)"

record solved =
  total :: int
  easy :: int
  medium :: int
  hard :: int

text \<open>One pass of the loop body over a row.\<close>

definition count_row :: "builtins \<Rightarrow> json \<Rightarrow> solved \<Rightarrow> py_error + solved" where
  "count_row lib row s =
     (if \<not> is_dict row then Inr s
      else
        py_bind (row_difficulty lib row) (\<lambda>diff.
          let c = row_count lib row
          in if contains ''all'' diff \<or> diff = [] then Inr (s\<lparr>total := c\<rparr>)
             else if contains ''easy'' diff then Inr (s\<lparr>easy := c\<rparr>)
             else if contains ''medium'' diff then Inr (s\<lparr>medium := c\<rparr>)
             else if contains ''hard'' diff then Inr (s\<lparr>hard := c\<rparr>)
             else Inr s))"

fun count_rows :: "builtins \<Rightarrow> json list \<Rightarrow> solved \<Rightarrow> py_error + solved" where
  "count_rows lib [] s = Inr s"
| "count_rows lib (row # rows) s = py_bind (count_row lib row s) (count_rows lib rows)"

definition no_solved :: solved where
  "no_solved = \<lparr>total = 0, easy = 0, medium = 0, hard = 0\<rparr>"

text \<open>The submission calendar, lines 312 to 321.\<close>

definition decode_calendar :: "builtins \<Rightarrow> json \<Rightarrow> json \<Rightarrow> py_error + json" where
  "decode_calendar lib mu nj =
     py_bind (py_or (py_get mu ''submissionCalendar'') (py_get nj ''submissionCalendar''))
       (\<lambda>cal_data.
          if truthy cal_data
          then (case cal_data of
                  JStr s \<Rightarrow> Inr (case json_loads lib s of None \<Rightarrow> JDict [] | Some v \<Rightarrow> v)
                | JDict d \<Rightarrow> Inr cal_data
                | _ \<Rightarrow> Inr (JDict []))
          else Inr (JDict []))"

text \<open>Streak and active days, lines 324 to 335: the pair (streak, total active days).\<close>

definition resolve_activity :: "json \<Rightarrow> json \<Rightarrow> py_error + (json \<times> json)" where
  "resolve_activity mu nj =
     py_bind (get_or_empty mu ''userCalendar'') (\<lambda>user_cal.
     py_bind (if truthy user_cal
              then py_bind (py_or (py_get user_cal ''streak'') (Inr (JInt 0))) (\<lambda>s.
                   py_bind (py_or (py_get user_cal ''totalActiveDays'') (Inr (JInt 0))) (\<lambda>a.
                     Inr (s, a)))
              else Inr (JInt 0, JInt 0)) (\<lambda>(streak, days).
     py_bind (if \<not> truthy streak
              then py_or (py_or (py_get nj ''streak'') (py_get mu ''streak'')) (Inr (JInt 0))
              else Inr streak) (\<lambda>streak1.
     py_bind (if \<not> truthy days
              then py_or (py_or (py_get nj ''activeDays'') (py_get mu ''activeDays'')) (Inr (JInt 0))
              else Inr days) (\<lambda>days1.
       Inr (streak1, days1)))))"

definition has_stats :: "solved \<Rightarrow> bool" where
  "has_stats s = (total s > 0 \<or> easy s > 0 \<or> medium s > 0 \<or> hard s > 0)"

definition partial_message :: string where
  "partial_message =
     ''Profile data retrieved, but detailed problem statistics (totalSolved, easySolved, etc.) are not available from public APIs. LeetCode's GraphQL API requires authentication.''"

definition missing_message :: string where
  "missing_message =
     ''Unable to retrieve LeetCode profile data. User may not exist or profile may be private.''"

text \<open>The message chosen at lines 341 to 346; \<open>JNull\<close> is Python's \<open>None\<close>.\<close>

definition error_message :: "solved \<Rightarrow> json \<Rightarrow> json \<Rightarrow> py_error + json" where
  "error_message s submission_cal prof =
     (if \<not> has_stats s
      then py_bind (py_or (Inr submission_cal) (py_get prof ''ranking'')) (\<lambda>signal.
             if truthy signal then Inr (JStr partial_message) else Inr (JStr missing_message))
      else Inr JNull)"

text \<open>\<open>prof.get(k, dflt) if prof else absent\<close>\<close>

definition prof_field :: "json \<Rightarrow> string \<Rightarrow> json \<Rightarrow> json \<Rightarrow> py_error + json" where
  "prof_field prof k dflt absent = (if truthy prof then py_get_default prof k dflt else Inr absent)"

definition extract_stats_from_normalized ::
  "builtins \<Rightarrow> json \<Rightarrow> string \<Rightarrow> py_error + json" where
  "extract_stats_from_normalized lib nj username =
     py_bind (update_report (leetcode_template username) [(''error'', JBool True)]) (\<lambda>tpl.
     py_bind (if truthy nj then py_get nj ''matchedUser'' else Inr JNull) (\<lambda>mu.
       if \<not> truthy mu then Inr tpl
       else
         py_bind (get_or_empty mu ''profile'') (\<lambda>prof.
         py_bind (locate_ac mu) (\<lambda>ac.
         py_bind (py_iter lib ac) (\<lambda>rows.
         py_bind (count_rows lib rows no_solved) (\<lambda>s.
         py_bind (decode_calendar lib mu nj) (\<lambda>submission_cal.
         py_bind (resolve_activity mu nj) (\<lambda>(streak, total_active_days).
         py_bind (error_message s submission_cal prof) (\<lambda>error_msg.
         py_bind (py_or (py_or (py_get nj ''acceptanceRate'') (py_get mu ''acceptanceRate''))
                    (Inr (JInt 0))) (\<lambda>acceptance.
         py_bind (prof_field prof ''ranking'' JNull JNull) (\<lambda>ranking.
         py_bind (prof_field prof ''reputation'' (JInt 0) (JInt 0)) (\<lambda>reputation.
         py_bind (prof_field prof ''postViewCount'' (JInt 0) (JInt 0)) (\<lambda>contribution.
           update_report tpl
             [(''error'', JBool (\<not> has_stats s)),
              (''errorMessage'', if truthy error_msg then error_msg else JNull),
              (''username'', JStr username),
              (''totalSolved'', JInt (total s)),
              (''easySolved'', JInt (easy s)),
              (''mediumSolved'', JInt (medium s)),
              (''hardSolved'', JInt (hard s)),
              (''acceptanceRate'', acceptance),
              (''ranking'', ranking),
              (''reputation'', reputation),
              (''contributionPoints'', contribution),
              (''streak'', streak),
              (''totalActiveDays'', total_active_days),
              (''submissionCalendar'', submission_cal)])))))))))))))"

text \<open>Reading a field of the report inside an envelope.\<close>

definition report_field :: "json \<Rightarrow> string \<Rightarrow> json option" where
  "report_field env k =
     (case env of
        JDict e \<Rightarrow> (case map_of e ''report'' of Some (JDict r) \<Rightarrow> map_of r k | _ \<Rightarrow> None)
      | _ \<Rightarrow> None)"

text \<open>
  The classification in the specification's words: a case-insensitive substring match of
  the label, "all" or an empty label to total, then easy, medium, hard.
\<close>

datatype difficulty = Total | Easy | Medium | Hard | Unrecognized

definition classify :: "builtins \<Rightarrow> string \<Rightarrow> difficulty" where
  "classify lib label =
     (let l = str_lower lib label
      in if contains ''all'' l \<or> l = [] then Total
         else if contains ''easy'' l then Easy
         else if contains ''medium'' l then Medium
         else if contains ''hard'' l then Hard
         else Unrecognized)"

text \<open>The label of a row: missing and falsy labels read as the empty label.\<close>

definition row_label :: "json \<Rightarrow> string option" where
  "row_label row =
     (case row of
        JDict r \<Rightarrow>
          (case map_of r ''difficulty'' of
             None \<Rightarrow> Some []
           | Some v \<Rightarrow> if truthy v then (case v of JStr l \<Rightarrow> Some l | _ \<Rightarrow> None) else Some [])
      | _ \<Rightarrow> None)"

definition row_class :: "builtins \<Rightarrow> json \<Rightarrow> difficulty" where
  "row_class lib row =
     (case row_label row of None \<Rightarrow> Unrecognized | Some l \<Rightarrow> classify lib l)"

text \<open>A row the loop can read: not a dictionary (skipped), or one whose label is a string or falsy.\<close>

definition readable_row :: "json \<Rightarrow> bool" where
  "readable_row row = (\<not> is_dict row \<or> row_label row \<noteq> None)"

text \<open>The count of the last row of a class, or \<open>dflt\<close> when the array has none.\<close>

definition last_count :: "builtins \<Rightarrow> difficulty \<Rightarrow> json list \<Rightarrow> int \<Rightarrow> int" where
  "last_count lib c rows dflt =
     (let xs = filter (\<lambda>row. is_dict row \<and> row_class lib row = c) rows
      in if xs = [] then dflt else row_count lib (last xs))"

text \<open>The payload whose user record holds exactly the statistics array \<open>rows\<close>.\<close>

definition stats_payload :: "json list \<Rightarrow> json" where
  "stats_payload rows =
     JDict [(''matchedUser'',
             JDict [(''submitStatsGlobal'', JDict [(''acSubmissionNum'', JList rows)])])]"

subsection \<open>Notions used to state the extractor's properties\<close>

text \<open>Storing a count in the field of its class.\<close>

definition put :: "difficulty \<Rightarrow> int \<Rightarrow> solved \<Rightarrow> solved" where
  "put c n s =
     (case c of Total \<Rightarrow> s\<lparr>total := n\<rparr> | Easy \<Rightarrow> s\<lparr>easy := n\<rparr> | Medium \<Rightarrow> s\<lparr>medium := n\<rparr>
      | Hard \<Rightarrow> s\<lparr>hard := n\<rparr> | Unrecognized \<Rightarrow> s)"

text \<open>The envelope whose report holds the fourteen canonical fields with the values \<open>vs\<close>.\<close>

definition full_report :: "string \<Rightarrow> json list \<Rightarrow> json" where
  "full_report u vs =
     JDict [(''message'', JStr template_message),
            (''report'', JDict (zip (map fst (template_report u)) vs))]"



text \<open>A dictionary whose keys are pairwise distinct.\<close>

definition proper_dict :: "json \<Rightarrow> bool" where
  "proper_dict x = (case x of JDict d \<Rightarrow> distinct (map fst d) | _ \<Rightarrow> False)"









text \<open>A field of the report the extractor returns, nothing when it raises.\<close>

definition solved_field :: "builtins \<Rightarrow> json \<Rightarrow> string \<Rightarrow> string \<Rightarrow> json option" where
  "solved_field lib nj u k =
     (case extract_stats_from_normalized lib nj u of
        Inl e \<Rightarrow> None
      | Inr env \<Rightarrow> report_field env k)"

text \<open>The row \<open>{"difficulty": "Medium", "count": "12"}\<close>.\<close>

definition medium_row :: json where
  "medium_row = JDict [(''difficulty'', JStr ''Medium''), (''count'', JStr ''12'')]"

section \<open>HTTP handlers\<close>

text \<open>
  The five fetchers catch every exception and return a dictionary; here each is the
  function from a username to the dictionary it returns at the time of the request.
  The handlers thread the process-wide cache; \<open>get_cached_or_fetch\<close> reads the clock once
  in \<open>cache.get\<close> and once in \<open>cache.set\<close>. Python's \<open>None\<close> is \<open>JNull\<close>.
\<close>

record fetchers =
  leetcode_live :: "string \<Rightarrow> json"
  codechef_live :: "string \<Rightarrow> json"
  duolingo_live :: "string \<Rightarrow> json"
  codeforces_live :: "string \<Rightarrow> json"
  hackerrank_live :: "string \<Rightarrow> json"

definition get_cached_or_fetch ::
  "json ttl_cache \<Rightarrow> real \<Rightarrow> real \<Rightarrow> string \<Rightarrow> (string \<Rightarrow> json) \<Rightarrow> string \<Rightarrow> json ttl_cache \<times> json" where
  "get_cached_or_fetch c t_get t_set key fn arg =
     (let (c1, val) = cache_get c t_get key;
          hit = (case val of None \<Rightarrow> JNull | Some v \<Rightarrow> v)
      in if hit \<noteq> JNull then (c1, hit)
         else (let data = fn arg in (cache_set c1 t_set key data CACHE_TTL, data)))"

definition api_leetcode ::
  "fetchers \<Rightarrow> json ttl_cache \<Rightarrow> real \<Rightarrow> real \<Rightarrow> string \<Rightarrow> json ttl_cache \<times> json" where
  "api_leetcode F c t_get t_set username =
     get_cached_or_fetch c t_get t_set (''lc:'' @ username) (leetcode_live F) username"

definition api_codechef ::
  "fetchers \<Rightarrow> json ttl_cache \<Rightarrow> real \<Rightarrow> real \<Rightarrow> string \<Rightarrow> json ttl_cache \<times> json" where
  "api_codechef F c t_get t_set username =
     get_cached_or_fetch c t_get t_set (''cc:'' @ username) (codechef_live F) username"

definition api_duolingo ::
  "fetchers \<Rightarrow> json ttl_cache \<Rightarrow> real \<Rightarrow> real \<Rightarrow> string \<Rightarrow> json ttl_cache \<times> json" where
  "api_duolingo F c t_get t_set username =
     get_cached_or_fetch c t_get t_set (''duo:'' @ username) (duolingo_live F) username"

definition api_cf ::
  "fetchers \<Rightarrow> json ttl_cache \<Rightarrow> real \<Rightarrow> real \<Rightarrow> string \<Rightarrow> json ttl_cache \<times> json" where
  "api_cf F c t_get t_set username =
     get_cached_or_fetch c t_get t_set (''cf:'' @ username) (codeforces_live F) username"

definition api_hr ::
  "fetchers \<Rightarrow> json ttl_cache \<Rightarrow> real \<Rightarrow> real \<Rightarrow> string \<Rightarrow> json ttl_cache \<times> json" where
  "api_hr F c t_get t_set username =
     get_cached_or_fetch c t_get t_set (''hr:'' @ username) (hackerrank_live F) username"

text \<open>A handler's normal return, as the left-hand side of a possible \<open>HTTPException\<close>.\<close>

definition returned :: "json ttl_cache \<times> json \<Rightarrow> json ttl_cache \<times> (http_error + json)" where
  "returned r = (fst r, Inr (snd r))"

text \<open>
  \<open>api_unified\<close> calls the per-source handlers as plain functions, so their
  \<open>Depends(check_rate_limit)\<close> default is not run a second time. \<open>platform.lower()\<close> is
  the built-in \<open>str_lower\<close>.
\<close>

definition api_unified ::
  "builtins \<Rightarrow> fetchers \<Rightarrow> json ttl_cache \<Rightarrow> real \<Rightarrow> real \<Rightarrow> string \<Rightarrow> string \<Rightarrow>
     json ttl_cache \<times> (http_error + json)" where
  "api_unified lib F c t_get t_set platform username =
     (let p = str_lower lib platform
      in if p \<in> set [''leetcode'', ''lc''] then returned (api_leetcode F c t_get t_set username)
         else if p \<in> set [''codechef'', ''cc''] then returned (api_codechef F c t_get t_set username)
         else if p \<in> set [''duolingo'', ''duo''] then returned (api_duolingo F c t_get t_set username)
         else if p \<in> set [''codeforces'', ''cf''] then returned (api_cf F c t_get t_set username)
         else if p \<in> set [''hackerrank'', ''hr''] then returned (api_hr F c t_get t_set username)
         else (c, Inl (HTTPException 404 ''Unknown platform.'')))"

definition platform_aliases :: "string list" where
  "platform_aliases =
     [''leetcode'', ''lc'', ''codechef'', ''cc'', ''duolingo'', ''duo'', ''codeforces'', ''cf'',
      ''hackerrank'', ''hr'']"

text \<open>Fetchers that answer with a one-field dictionary naming the source, for evaluation.\<close>

definition sample_fetchers :: fetchers where
  "sample_fetchers =
     \<lparr>leetcode_live = (\<lambda>u. JDict [(''lc'', JStr u)]),
      codechef_live = (\<lambda>u. JDict [(''cc'', JStr u)]),
      duolingo_live = (\<lambda>u. JDict [(''duo'', JStr u)]),
      codeforces_live = (\<lambda>u. JDict [(''cf'', JStr u)]),
      hackerrank_live = (\<lambda>u. JDict [(''hr'', JStr u)])\<rparr>"

section \<open>Properties of the TTL cache\<close>

text \<open>
  Claim C7. \<open>set(k, v, ttl)\<close> stores \<open>v\<close> with expiry insertion time plus \<open>ttl\<close>,
  whatever was stored under \<open>k\<close> before, and touches no other key. A \<open>get(k)\<close> at a time
  not later than the recorded expiry returns the stored value and leaves the store as it
  is; a \<open>get(k)\<close> at a later time returns absent and deletes the entry.
\<close>

theorem ttl_cache_contract:
  "cache_set d t0 k v ttl k = Some (v, t0 + ttl)
   \<and> (\<forall>k'. k' \<noteq> k \<longrightarrow> cache_set d t0 k v ttl k' = d k')
   \<and> (\<forall>c e. c k = Some (v, e) \<and> t \<le> e \<longrightarrow> cache_get c t k = (c, Some v))
   \<and> (\<forall>c e. c k = Some (v, e) \<and> e < t \<longrightarrow> cache_get c t k = (c(k := None), None))
   \<and> (t \<le> t0 + ttl \<longrightarrow> cache_get (cache_set d t0 k v ttl) t k = (cache_set d t0 k v ttl, Some v))
   \<and> (t0 + ttl < t \<longrightarrow> snd (cache_get (cache_set d t0 k v ttl) t k) = None
         \<and> fst (cache_get (cache_set d t0 k v ttl) t k) k = None)"
  by (simp add: cache_get_def cache_set_def)

theorem ttl_cache_contract_witness:
  "cache_set [''lc:bob'' \<mapsto> (5::nat, 3)] 100 ''lc:bob'' 7 1 ''lc:bob'' = Some (7, 101)
   \<and> cache_set [''lc:bob'' \<mapsto> (5::nat, 3)] 100 ''lc:bob'' 7 1 ''cf:bob'' = None
   \<and> cache_get [''lc:bob'' \<mapsto> (7::nat, 101)] 100 ''lc:bob'' = ([''lc:bob'' \<mapsto> (7, 101)], Some 7)
   \<and> cache_get [''lc:bob'' \<mapsto> (7::nat, 101)] 102 ''lc:bob'' = (Map.empty, None)
   \<and> snd (cache_get (cache_set Map.empty 100 ''lc:bob'' (7::nat) 1) 100 ''lc:bob'') = Some 7
   \<and> snd (cache_get (cache_set Map.empty 100 ''lc:bob'' (7::nat) 1) 102 ''lc:bob'') = None
   \<and> fst (cache_get (cache_set Map.empty 100 ''lc:bob'' (7::nat) 1) 102 ''lc:bob'') ''lc:bob'' = None"
proof -
  have a: "[''lc:bob'' \<mapsto> (7::nat, 101::real)] ''lc:bob'' = Some (7, 101) \<and> (100::real) \<le> 101"
    by simp
  have b: "[''lc:bob'' \<mapsto> (7::nat, 101::real)] ''lc:bob'' = Some (7, 101) \<and> (101::real) < 102"
    by simp
  have c: "''cf:bob'' \<noteq> ''lc:bob''"
    by simp
  note C1 = ttl_cache_contract [of "[''lc:bob'' \<mapsto> (5::nat, 3)]" 100 "''lc:bob''" 7 1 100]
  note C2 = ttl_cache_contract [of Map.empty 100 "''lc:bob''" "7::nat" 1 100]
  note C3 = ttl_cache_contract [of Map.empty 100 "''lc:bob''" "7::nat" 1 102]
  show ?thesis
    using a b c C1 C2 C3 by (simp add: cache_set_def)
qed

section \<open>Properties of the rate limiter\<close>

lemma popleft_expired_sorted:
  "sorted ts \<Longrightarrow> popleft_expired now period ts = filter (\<lambda>t. now - real period < t) ts"
proof (induction ts)
  case Nil
  then show ?case by simp
next
  case (Cons t ts)
  show ?case
  proof (cases "t \<le> now - real period")
    case True
    with Cons show ?thesis by simp
  next
    case False
    with Cons.prems have "\<forall>u\<in>set ts. now - real period < u" by fastforce
    then have "filter (\<lambda>t. now - real period < t) ts = ts" by simp
    with False show ?thesis by simp
  qed
qed

lemma check_rate_limit_with_spec:
  "sorted (bucket_of buckets ip) \<Longrightarrow>
   check_rate_limit_with limit period buckets ip now = admit_spec limit period buckets ip now"
  by (simp add: check_rate_limit_with_def admit_spec_def bucket_of_def popleft_expired_sorted
      Let_def not_le)

lemma sorted_after_admit:
  assumes "sorted (bucket_of buckets ip @ t # ts)"
  shows "sorted (bucket_of (fst (admit_spec limit period buckets ip t)) ip @ ts)"
proof -
  let ?old = "bucket_of buckets ip"
  let ?kept = "filter (\<lambda>u. t - real period < u) ?old"
  from assms have a: "sorted ?old" "sorted ts" "\<forall>x\<in>set ?old. x \<le> t"
    "\<forall>y\<in>set ts. t \<le> y" "\<forall>x\<in>set ?old. \<forall>y\<in>set ts. x \<le> y"
    by (auto simp: sorted_append)
  have k: "sorted ?kept" using a(1) by (simp add: sorted_wrt_filter)
  have 1: "sorted (?kept @ ts)" using k a(2,5) by (auto simp: sorted_append)
  have 2: "sorted ((?kept @ [t]) @ ts)" using k a(2,3,4,5) by (auto simp: sorted_append)
  show ?thesis using 1 2 by (simp add: admit_spec_def Let_def bucket_of_def)
qed

lemma admit_calls_spec:
  "sorted (bucket_of buckets ip @ ts) \<Longrightarrow>
   admit_calls limit period buckets ip ts = admit_spec_calls limit period buckets ip ts"
proof (induction ts arbitrary: buckets)
  case Nil
  then show ?case by simp
next
  case (Cons t ts)
  from Cons.prems have s: "sorted (bucket_of buckets ip)" by (simp add: sorted_append)
  have step: "check_rate_limit_with limit period buckets ip t = admit_spec limit period buckets ip t"
    using s by (rule check_rate_limit_with_spec)
  have "sorted (bucket_of (fst (admit_spec limit period buckets ip t)) ip @ ts)"
    using Cons.prems by (rule sorted_after_admit)
  then have "admit_calls limit period (fst (admit_spec limit period buckets ip t)) ip ts
     = admit_spec_calls limit period (fst (admit_spec limit period buckets ip t)) ip ts"
    by (rule Cons.IH)
  then show ?case using step by (simp add: case_prod_beta)
qed

lemma show_nat_values: "show_nat 3 = ''3''" "show_nat 60 = ''60''" "show_nat 30 = ''30''"
  by (simp_all add: show_nat.simps digit_char_def)

lemma detail_3_60: "rate_limit_detail 3 60 = ''Rate limit exceeded (3 req / 60s)''"
  by (simp add: rate_limit_detail_def show_nat_values)

lemma detail_configured:
  "rate_limit_detail RATE_LIMIT RATE_PERIOD = ''Rate limit exceeded (30 req / 60s)''"
  by (simp add: rate_limit_detail_def show_nat_values RATE_LIMIT_def RATE_PERIOD_def)

lemma limit_3_scenario:
  assumes "t1 \<le> t2" "t2 \<le> t3" "t3 \<le> t4" "t4 < t1 + 60" "t4 + 60 \<le> t5"
  shows "snd (admit_calls 3 60 Map.empty ip [t1, t2, t3, t4, t5]) =
     [Inr True, Inr True, Inr True,
      Inl (HTTPException 429 ''Rate limit exceeded (3 req / 60s)''), Inr True]"
  using assms
  by (simp add: check_rate_limit_with_def detail_3_60 Let_def)

text \<open>
  Claim C8. For every client, whenever the timestamps already in the client's bucket
  followed by the times of the calls are non-decreasing, the calls behave as the
  admission rule says: every call removes all timestamps a full window old or older,
  admits and records the call exactly when fewer than the limit remain, and otherwise
  rejects with status 429 and a detail naming limit and window (for the module's
  constants: 30 requests per 60 seconds). With limit 3 and window 60, starting from no
  buckets, four calls within one window are admitted, admitted, admitted, rejected, and a
  call one window after the fourth is admitted.
\<close>

theorem check_rate_limit_sliding_window:
  "(sorted (bucket_of buckets ip @ ts) \<longrightarrow>
      admit_calls limit period buckets ip ts = admit_spec_calls limit period buckets ip ts)
   \<and> (sorted (bucket_of buckets ip) \<longrightarrow>
      check_rate_limit buckets ip now = admit_spec RATE_LIMIT RATE_PERIOD buckets ip now)
   \<and> rate_limit_detail RATE_LIMIT RATE_PERIOD = ''Rate limit exceeded (30 req / 60s)''
   \<and> (t1 \<le> t2 \<and> t2 \<le> t3 \<and> t3 \<le> t4 \<and> t4 < t1 + 60 \<and> t4 + 60 \<le> t5 \<longrightarrow>
      snd (admit_calls 3 60 Map.empty ip [t1, t2, t3, t4, t5]) =
        [Inr True, Inr True, Inr True,
         Inl (HTTPException 429 ''Rate limit exceeded (3 req / 60s)''), Inr True])"
  using admit_calls_spec [of buckets ip ts limit period]
    check_rate_limit_with_spec [of buckets ip RATE_LIMIT RATE_PERIOD now]
    detail_configured limit_3_scenario [of t1 t2 t3 t4 t5 ip]
  unfolding check_rate_limit_def by blast

theorem check_rate_limit_sliding_window_witness:
  "sorted (bucket_of [''10.0.0.7'' \<mapsto> [1, 50]] ''10.0.0.7'' @ [70, 80])
   \<and> admit_calls 2 60 [''10.0.0.7'' \<mapsto> [1, 50]] ''10.0.0.7'' [70, 80]
       = admit_spec_calls 2 60 [''10.0.0.7'' \<mapsto> [1, 50]] ''10.0.0.7'' [70, 80]
   \<and> snd (admit_calls 2 60 [''10.0.0.7'' \<mapsto> [1, 50]] ''10.0.0.7'' [70, 80])
       = [Inr True, Inl (HTTPException 429 (rate_limit_detail 2 60))]
   \<and> sorted (bucket_of [''10.0.0.7'' \<mapsto> [1, 50]] ''10.0.0.7'')
   \<and> check_rate_limit [''10.0.0.7'' \<mapsto> [1, 50]] ''10.0.0.7'' 70
       = ([''10.0.0.7'' \<mapsto> [50, 70]], Inr True)
   \<and> snd (admit_calls 3 60 Map.empty ''10.0.0.7'' [0, 0, 0, 0, 60]) =
        [Inr True, Inr True, Inr True,
         Inl (HTTPException 429 ''Rate limit exceeded (3 req / 60s)''), Inr True]"
proof -
  have s1: "sorted (bucket_of [''10.0.0.7'' \<mapsto> [1, 50]] ''10.0.0.7'' @ [70, 80])"
    by (simp add: bucket_of_def)
  have s2: "sorted (bucket_of [''10.0.0.7'' \<mapsto> [1, 50]] ''10.0.0.7'')"
    by (simp add: bucket_of_def)
  have s3: "(0::real) \<le> 0 \<and> (0::real) \<le> 0 \<and> (0::real) \<le> 0 \<and> (0::real) < 0 + 60 \<and> (0::real) + 60 \<le> 60"
    by simp
  note T = check_rate_limit_sliding_window
    [of "[''10.0.0.7'' \<mapsto> [1, 50]]" "''10.0.0.7''" "[70, 80]" 2 60 70 0 0 0 0 60]
  have e1: "admit_calls 2 60 [''10.0.0.7'' \<mapsto> [1, 50]] ''10.0.0.7'' [70, 80]
       = admit_spec_calls 2 60 [''10.0.0.7'' \<mapsto> [1, 50]] ''10.0.0.7'' [70, 80]"
    using T s1 by blast
  have e2: "check_rate_limit [''10.0.0.7'' \<mapsto> [1, 50]] ''10.0.0.7'' 70
       = admit_spec RATE_LIMIT RATE_PERIOD [''10.0.0.7'' \<mapsto> [1, 50]] ''10.0.0.7'' 70"
    using T s2 by blast
  have e3: "snd (admit_calls 3 60 Map.empty ''10.0.0.7'' [0, 0, 0, 0, 60]) =
        [Inr True, Inr True, Inr True,
         Inl (HTTPException 429 ''Rate limit exceeded (3 req / 60s)''), Inr True]"
    using T s3 by blast
  have v1: "snd (admit_spec_calls 2 60 [''10.0.0.7'' \<mapsto> [1, 50]] ''10.0.0.7'' [70, 80])
       = [Inr True, Inl (HTTPException 429 (rate_limit_detail 2 60))]"
    by (simp add: admit_spec_def bucket_of_def Let_def)
  have v2: "admit_spec RATE_LIMIT RATE_PERIOD [''10.0.0.7'' \<mapsto> [1, 50]] ''10.0.0.7'' 70
       = ([''10.0.0.7'' \<mapsto> [50, 70]], Inr True)"
    by (simp add: admit_spec_def bucket_of_def Let_def RATE_LIMIT_def RATE_PERIOD_def)
  show ?thesis
    using s1 s2 e1 e2 e3 v1 v2 by simp
qed

section \<open>Properties of the normalizer\<close>

lemma py_bind_Inl [simp]: "py_bind (Inl e) f = Inl e"
  by (simp add: py_bind_def)

lemma py_bind_Inr [simp]: "py_bind (Inr v) f = f v"
  by (simp add: py_bind_def)

lemma py_or_Inr [simp]: "py_or (Inr a) mb = (if truthy a then Inr a else mb)"
  by (simp add: py_or_def)

lemma py_get_dict [simp]:
  "py_get (JDict d) k = Inr (case map_of d k of None \<Rightarrow> JNull | Some v \<Rightarrow> v)"
  by (simp add: py_get_def)

lemma is_dict_conv: "is_dict x \<longleftrightarrow> (\<exists>d. x = JDict d)"
  by (cases x) simp_all

lemma has_data_dict_total:
  "has_data_dict (JDict d) = Inr (case map_of d ''data'' of Some x \<Rightarrow> is_dict x | None \<Rightarrow> False)"
  by (simp add: has_data_dict_def split: option.splits)

lemma find_matched_user_total: "\<exists>mu. find_matched_user (JDict d) = Inr mu"
  by (auto simp: find_matched_user_def has_data_dict_total is_dict_conv split: option.splits)

lemma find_contest_ranking_total: "\<exists>ucr. find_contest_ranking (JDict d) = Inr ucr"
  by (auto simp: find_contest_ranking_def has_data_dict_total is_dict_conv split: option.splits)

lemma preserve_key_noop:
  assumes "map_of out ''matchedUser'' = Some (JDict dm)"
  shows "preserve_key k (JDict out) = Inr (JDict out)"
  using assms
  by (auto simp: preserve_key_def setitem_in_def update_triv split: option.splits)

lemma store_matched_user_empty:
  "store_matched_user mu (JDict []) =
     Inr (JDict (if truthy mu \<and> is_dict mu then [(''matchedUser'', mu)] else []))"
  by (auto simp: store_matched_user_def is_dict_conv preserve_key_noop)

lemma store_top_level_stats_eff:
  assumes "user_ok out"
  shows "\<exists>out'. store_top_level_stats k (JDict d) (JDict out) = Inr (JDict out')
      \<and> (map_of d k = None \<longrightarrow> out' = out)
      \<and> (\<forall>v. map_of d k = Some v \<longrightarrow>
            map_of out' = (map_of out)(''matchedUser'' \<mapsto> JDict (AList.update k v (user_of out))))"
  using assms
  by (auto simp: store_top_level_stats_def user_ok_def user_of_def is_dict_conv update_conv'
      split: option.splits)

lemma store_contest_ranking_eff:
  "store_contest_ranking ucr (JDict out) =
     Inr (JDict (if truthy ucr then AList.update ''userContestRanking'' ucr out else out))"
  by (simp add: store_contest_ranking_def)

lemma store_calendar_eff:
  assumes "user_ok out"
  shows "\<exists>out'. store_calendar (JDict d) (JDict out) = Inr (JDict out')
      \<and> (map_of d ''submissionCalendar'' = None \<longrightarrow> out' = out)
      \<and> (\<forall>v. map_of d ''submissionCalendar'' = Some v \<longrightarrow>
            map_of out' = (map_of out)(''matchedUser'' \<mapsto>
               JDict (if map_of (user_of out) ''submissionCalendar'' = None
                      then AList.update ''submissionCalendar'' v (user_of out)
                      else user_of out)))"
  using assms
  by (auto simp: store_calendar_def user_ok_def user_of_def is_dict_conv update_conv'
      split: option.splits)

lemma copy_top_level_eff:
  "\<exists>out'. copy_top_level ks (JDict d) (JDict out) = Inr (JDict out')
      \<and> (\<forall>k. map_of out' k = (if k \<in> set ks \<and> map_of d k \<noteq> None then map_of d k else map_of out k))"
proof (induction ks arbitrary: out)
  case Nil
  then show ?case by simp
next
  case (Cons k ks)
  show ?case
  proof (cases "map_of d k")
    case None
    with Cons.IH [of out] show ?thesis by auto
  next
    case (Some v)
    with Cons.IH [of "AList.update k v out"] show ?thesis
      by (auto simp: update_conv')
  qed
qed

lemma user_ok_upd: "map_of out' = (map_of out)(''matchedUser'' \<mapsto> JDict x) \<Longrightarrow> user_ok out'"
  by (simp add: user_ok_def)

lemma user_of_upd: "map_of out' = (map_of out)(''matchedUser'' \<mapsto> JDict x) \<Longrightarrow> user_of out' = x"
  by (simp add: user_of_def)

lemma normalize_char:
  assumes mu: "find_matched_user (JDict d) = Inr mu"
    and ucr: "find_contest_ranking (JDict d) = Inr ucr"
  shows "\<exists>out. normalize_leetcode_json (JDict d) = Inr (JDict out)
     \<and> (\<forall>k. map_of out k =
          (if k = ''matchedUser''
           then (if user_present d mu then Some (JDict (user_fields d mu)) else None)
           else if k = ''userContestRanking'' then (if truthy ucr then Some ucr else None)
           else if k \<in> set top_level_fields then map_of d k
           else None))"
proof -
  define o1 where "o1 = (if stored_user mu then [(''matchedUser'', mu)] else [])"
  have s1: "store_matched_user mu (JDict []) = Inr (JDict o1)"
    by (simp add: store_matched_user_empty o1_def stored_user_def)
  have ok1: "user_ok o1"
    by (simp add: o1_def user_ok_def stored_user_def)
  define x1 where "x1 = (case mu of JDict dm \<Rightarrow> dm | _ \<Rightarrow> [])"
  have u1: "user_of o1 = (if stored_user mu then x1 else [])"
    by (auto simp: o1_def user_of_def x1_def stored_user_def is_dict_conv)
  have x1_empty: "\<not> stored_user mu \<Longrightarrow> x1 = []"
    by (cases mu) (auto simp: x1_def stored_user_def)
  have u1': "user_of o1 = x1"
    using u1 x1_empty by auto
  have m1: "map_of o1 = (if stored_user mu then [''matchedUser'' \<mapsto> mu] else Map.empty)"
    by (auto simp: o1_def)
  have mu_x1: "stored_user mu \<Longrightarrow> mu = JDict x1"
    by (cases mu) (auto simp: x1_def stored_user_def)

  from store_top_level_stats_eff [OF ok1, of "''submitStatsGlobal''" d]
  obtain o2 where s2: "store_top_level_stats ''submitStatsGlobal'' (JDict d) (JDict o1) = Inr (JDict o2)"
    and n2: "map_of d ''submitStatsGlobal'' = None \<Longrightarrow> o2 = o1"
    and v2: "\<And>v. map_of d ''submitStatsGlobal'' = Some v \<Longrightarrow>
        map_of o2 = (map_of o1)(''matchedUser'' \<mapsto> JDict (AList.update ''submitStatsGlobal'' v (user_of o1)))"
    by (elim exE conjE) simp
  define x2 where "x2 = (case map_of d ''submitStatsGlobal'' of None \<Rightarrow> x1
                | Some v \<Rightarrow> AList.update ''submitStatsGlobal'' v x1)"
  define p2 where "p2 = (stored_user mu \<or> map_of d ''submitStatsGlobal'' \<noteq> None)"
  have m2: "map_of o2 = (if p2 then [''matchedUser'' \<mapsto> JDict x2] else Map.empty)"
  proof (cases "map_of d ''submitStatsGlobal''")
    case None
    then show ?thesis using n2 m1 mu_x1 by (auto simp: x2_def p2_def)
  next
    case (Some v)
    then show ?thesis using v2 [OF Some] m1 u1' by (auto simp: x2_def p2_def)
  qed
  have ok2: "user_ok o2" using m2 by (simp add: user_ok_def)
  have u2: "p2 \<Longrightarrow> user_of o2 = x2" using m2 by (simp add: user_of_def)
  have x2_empty: "\<not> p2 \<Longrightarrow> x2 = []" using x1_empty by (auto simp: x2_def p2_def)
  have u2n: "\<not> p2 \<Longrightarrow> user_of o2 = []" using m2 by (simp add: user_of_def)
  have u2': "user_of o2 = x2" using u2 u2n x2_empty by (cases p2) auto

  from store_top_level_stats_eff [OF ok2, of "''submitStats''" d]
  obtain o3 where s3: "store_top_level_stats ''submitStats'' (JDict d) (JDict o2) = Inr (JDict o3)"
    and n3: "map_of d ''submitStats'' = None \<Longrightarrow> o3 = o2"
    and v3: "\<And>v. map_of d ''submitStats'' = Some v \<Longrightarrow>
        map_of o3 = (map_of o2)(''matchedUser'' \<mapsto> JDict (AList.update ''submitStats'' v (user_of o2)))"
    by (elim exE conjE) simp
  define x3 where "x3 = (case map_of d ''submitStats'' of None \<Rightarrow> x2
                | Some v \<Rightarrow> AList.update ''submitStats'' v x2)"
  define p3 where "p3 = (p2 \<or> map_of d ''submitStats'' \<noteq> None)"
  have m3: "map_of o3 = (if p3 then [''matchedUser'' \<mapsto> JDict x3] else Map.empty)"
  proof (cases "map_of d ''submitStats''")
    case None
    then show ?thesis using n3 m2 by (auto simp: x3_def p3_def)
  next
    case (Some v)
    then show ?thesis using v3 [OF Some] m2 u2' by (auto simp: x3_def p3_def)
  qed
  have x3_empty: "\<not> p3 \<Longrightarrow> x3 = []" using x2_empty by (auto simp: x3_def p3_def)

  define o4 where "o4 = (if truthy ucr then AList.update ''userContestRanking'' ucr o3 else o3)"
  have s4: "store_contest_ranking ucr (JDict o3) = Inr (JDict o4)"
    by (simp add: store_contest_ranking_eff o4_def)
  have m4: "map_of o4 = (\<lambda>k. if k = ''userContestRanking'' \<and> truthy ucr then Some ucr else map_of o3 k)"
    by (auto simp: o4_def update_conv')
  have m4u: "map_of o4 ''matchedUser'' = (if p3 then Some (JDict x3) else None)"
    using m3 by (simp add: m4)
  have ok4: "user_ok o4" using m4u by (simp add: user_ok_def)
  have u4: "user_of o4 = x3" using m4u x3_empty by (auto simp: user_of_def)

  from store_calendar_eff [OF ok4, of d]
  obtain o5 where s5: "store_calendar (JDict d) (JDict o4) = Inr (JDict o5)"
    and n5: "map_of d ''submissionCalendar'' = None \<Longrightarrow> o5 = o4"
    and v5: "\<And>v. map_of d ''submissionCalendar'' = Some v \<Longrightarrow>
        map_of o5 = (map_of o4)(''matchedUser'' \<mapsto>
               JDict (if map_of (user_of o4) ''submissionCalendar'' = None
                      then AList.update ''submissionCalendar'' v (user_of o4)
                      else user_of o4))"
    by (elim exE conjE) simp
  define x5 where "x5 = (case map_of d ''submissionCalendar'' of None \<Rightarrow> x3
          | Some v \<Rightarrow> if map_of x3 ''submissionCalendar'' = None
                      then AList.update ''submissionCalendar'' v x3 else x3)"
  define p5 where "p5 = (p3 \<or> map_of d ''submissionCalendar'' \<noteq> None)"
  have m5: "map_of o5 = (\<lambda>k. if k = ''matchedUser'' then (if p5 then Some (JDict x5) else None)
       else if k = ''userContestRanking'' \<and> truthy ucr then Some ucr else None)"
  proof (cases "map_of d ''submissionCalendar''")
    case None
    then show ?thesis using n5 m4 m3 by (auto simp: x5_def p5_def)
  next
    case (Some v)
    show ?thesis
      unfolding v5 [OF Some] u4 using Some m4 m3 by (auto simp: x5_def p5_def)
  qed

  from copy_top_level_eff [of top_level_fields d o5]
  obtain o6 where s6: "copy_top_level top_level_fields (JDict d) (JDict o5) = Inr (JDict o6)"
    and m6: "\<And>k. map_of o6 k =
       (if k \<in> set top_level_fields \<and> map_of d k \<noteq> None then map_of d k else map_of o5 k)"
    by (elim exE conjE) simp
  have x5: "x5 = user_fields d mu"
    unfolding x5_def x3_def x2_def x1_def user_fields_def Let_def ..
  have p5: "p5 = user_present d mu"
    by (simp add: p5_def p3_def p2_def user_present_def)
  have res: "normalize_leetcode_json (JDict d) = Inr (JDict o6)"
    by (simp add: normalize_leetcode_json_def mu ucr s1 s2 s3 s4 s5 s6)
  have "\<forall>k. map_of o6 k =
          (if k = ''matchedUser''
           then (if user_present d mu then Some (JDict (user_fields d mu)) else None)
           else if k = ''userContestRanking'' then (if truthy ucr then Some ucr else None)
           else if k \<in> set top_level_fields then map_of d k
           else None)"
    unfolding m6 m5 x5 p5 by (auto simp: top_level_fields_def)
  with res show ?thesis by blast
qed

lemma normalize_not_dict: "\<not> is_dict j \<Longrightarrow> normalize_leetcode_json j = Inr (JDict [])"
  by (simp add: normalize_leetcode_json_def)

lemma normalize_total: "\<exists>out. normalize_leetcode_json j = Inr (JDict out)"
proof (cases "is_dict j")
  case False
  then show ?thesis by (simp add: normalize_not_dict)
next
  case True
  then obtain d where j: "j = JDict d" by (auto simp: is_dict_conv)
  obtain mu where mu: "find_matched_user (JDict d) = Inr mu"
    using find_matched_user_total by blast
  obtain ucr where ucr: "find_contest_ranking (JDict d) = Inr ucr"
    using find_contest_ranking_total by blast
  from normalize_char [OF mu ucr] show ?thesis unfolding j by blast
qed

lemma user_fields_nonempty: "user_present d mu \<Longrightarrow> user_fields d mu \<noteq> []"
  by (cases mu)
     (auto simp: user_present_def user_fields_def stored_user_def Let_def split: option.splits)

lemma user_fields_calendar:
  "map_of d ''submissionCalendar'' = Some v \<Longrightarrow>
   map_of (user_fields d mu) ''submissionCalendar'' \<noteq> None"
  by (auto simp: user_fields_def Let_def update_conv' split: option.splits)

lemma user_fields_fixed:
  assumes "map_of d ''submitStatsGlobal'' = None" "map_of d ''submitStats'' = None"
    and "\<And>v. map_of d ''submissionCalendar'' = Some v \<Longrightarrow> map_of x ''submissionCalendar'' \<noteq> None"
  shows "user_fields d (JDict x) = x"
  using assms by (auto simp: user_fields_def Let_def split: option.splits)

lemma normalize_again:
  assumes "normalize_leetcode_json j = Inr (JDict out)"
  shows "\<exists>out2. normalize_leetcode_json (JDict out) = Inr (JDict out2) \<and> map_of out2 = map_of out"
proof (cases "is_dict j")
  case False
  with assms have e: "out = []" by (simp add: normalize_not_dict)
  have mu0: "find_matched_user (JDict []) = Inr JNull"
    by (simp add: find_matched_user_def has_data_dict_total)
  have ucr0: "find_contest_ranking (JDict []) = Inr JNull"
    by (simp add: find_contest_ranking_def has_data_dict_total)
  from normalize_char [OF mu0 ucr0]
  obtain out2 where r: "normalize_leetcode_json (JDict []) = Inr (JDict out2)"
    and m2: "\<And>k. map_of out2 k =
          (if k = ''matchedUser''
           then (if user_present [] JNull then Some (JDict (user_fields [] JNull)) else None)
           else if k = ''userContestRanking'' then (if truthy JNull then Some JNull else None)
           else if k \<in> set top_level_fields then map_of [] k
           else None)"
    by (elim exE conjE) simp
  have "map_of out2 k = map_of [] k" for k
    unfolding m2 by (simp add: user_present_def stored_user_def)
  then have "map_of out2 = map_of []" by (rule ext)
  with r e show ?thesis by blast
next
  case True
  then obtain d where j: "j = JDict d" by (auto simp: is_dict_conv)
  obtain mu where mu: "find_matched_user (JDict d) = Inr mu"
    using find_matched_user_total by blast
  obtain ucr where ucr: "find_contest_ranking (JDict d) = Inr ucr"
    using find_contest_ranking_total by blast
  from normalize_char [OF mu ucr] assms
  have m: "\<And>k. map_of out k =
          (if k = ''matchedUser''
           then (if user_present d mu then Some (JDict (user_fields d mu)) else None)
           else if k = ''userContestRanking'' then (if truthy ucr then Some ucr else None)
           else if k \<in> set top_level_fields then map_of d k
           else None)"
    unfolding j by auto
  define mu2 where "mu2 = (if user_present d mu then JDict (user_fields d mu) else JNull)"
  define ucr2 where "ucr2 = (if truthy ucr then ucr else JNull)"
  have mu2: "find_matched_user (JDict out) = Inr mu2"
    using user_fields_nonempty [of d mu]
    by (simp add: find_matched_user_def has_data_dict_total m top_level_fields_def mu2_def)
  have ucr2: "find_contest_ranking (JDict out) = Inr ucr2"
    by (simp add: find_contest_ranking_def has_data_dict_total m top_level_fields_def ucr2_def)
  from normalize_char [OF mu2 ucr2]
  obtain out2 where r: "normalize_leetcode_json (JDict out) = Inr (JDict out2)"
    and m2: "\<And>k. map_of out2 k =
          (if k = ''matchedUser''
           then (if user_present out mu2 then Some (JDict (user_fields out mu2)) else None)
           else if k = ''userContestRanking'' then (if truthy ucr2 then Some ucr2 else None)
           else if k \<in> set top_level_fields then map_of out k
           else None)"
    by (elim exE conjE) simp
  have cal: "map_of out ''submissionCalendar'' = map_of d ''submissionCalendar''"
    by (simp add: m top_level_fields_def)
  have st: "stored_user mu2 \<longleftrightarrow> user_present d mu"
    using user_fields_nonempty [of d mu] by (simp add: mu2_def stored_user_def)
  have p: "user_present out mu2 \<longleftrightarrow> user_present d mu"
    unfolding user_present_def [of out] st cal
    by (auto simp: m top_level_fields_def user_present_def)
  have f: "user_fields out (JDict (user_fields d mu)) = user_fields d mu"
  proof (rule user_fields_fixed)
    show "map_of out ''submitStatsGlobal'' = None" by (simp add: m top_level_fields_def)
    show "map_of out ''submitStats'' = None" by (simp add: m top_level_fields_def)
    show "map_of (user_fields d mu) ''submissionCalendar'' \<noteq> None"
      if "map_of out ''submissionCalendar'' = Some v" for v
      using that user_fields_calendar [of d v mu] unfolding cal by simp
  qed
  have t: "truthy ucr2 \<longleftrightarrow> truthy ucr" by (simp add: ucr2_def)
  have "map_of out2 k = map_of out k" for k
    unfolding m2 p t using f by (auto simp: m ucr2_def mu2_def top_level_fields_def)
  then have "map_of out2 = map_of out" by (rule ext)
  with r show ?thesis by blast
qed

section \<open>Properties of the extractor\<close>

lemma py_bind_eq_Inr: "py_bind m f = Inr r \<longleftrightarrow> (\<exists>v. m = Inr v \<and> f v = Inr r)"
  by (cases m) simp_all

lemma row_difficulty_label:
  "row_difficulty lib (JDict r) = (case row_label (JDict r) of None \<Rightarrow> Inl AttributeError
      | Some l \<Rightarrow> Inr (str_lower lib l))"
  by (auto simp: row_difficulty_def row_label_def split: option.splits json.splits)

lemma count_row_readable:
  assumes "readable_row row"
  shows "count_row lib row s = Inr (if is_dict row then put (row_class lib row) (row_count lib row) s else s)"
proof (cases "is_dict row")
  case False
  then show ?thesis by (simp add: count_row_def)
next
  case True
  then obtain r where r: "row = JDict r" by (auto simp: is_dict_conv)
  from assms True obtain l where l: "row_label row = Some l"
    by (auto simp: readable_row_def)
  show ?thesis
    using l unfolding r
    by (simp add: count_row_def row_difficulty_label row_class_def classify_def put_def Let_def)
qed

lemma last_count_Cons:
  "last_count lib c (rows @ [row]) dflt =
     (if is_dict row \<and> row_class lib row = c then row_count lib row else last_count lib c rows dflt)"
  by (simp add: last_count_def)

lemma count_rows_append:
  "count_rows lib (xs @ ys) s = py_bind (count_rows lib xs s) (count_rows lib ys)"
  by (induction xs arbitrary: s) (auto simp: py_bind_def split: sum.splits)

lemma count_rows_last:
  assumes "\<forall>row\<in>set rows. readable_row row"
  shows "count_rows lib rows s =
     Inr \<lparr>total = last_count lib Total rows (total s), easy = last_count lib Easy rows (easy s),
          medium = last_count lib Medium rows (medium s), hard = last_count lib Hard rows (hard s)\<rparr>"
  using assms
proof (induction rows rule: rev_induct)
  case Nil
  then show ?case by (simp add: last_count_def)
next
  case (snoc row rows)
  then have ih: "count_rows lib rows s =
     Inr \<lparr>total = last_count lib Total rows (total s), easy = last_count lib Easy rows (easy s),
          medium = last_count lib Medium rows (medium s), hard = last_count lib Hard rows (hard s)\<rparr>"
    and rr: "readable_row row" by simp_all
  show ?case
    by (cases "row_class lib row")
       (simp_all add: count_rows_append ih count_row_readable [OF rr] last_count_Cons put_def)
qed

lemma first_update [simp]:
  "update_report (leetcode_template u) [(''error'', JBool True)] = Inr (leetcode_template u)"
  by (simp add: update_report_def leetcode_template_def template_report_def dict_update_def)

lemma final_update:
  "update_report (leetcode_template u)
             [(''error'', v1), (''errorMessage'', v2), (''username'', v3), (''totalSolved'', v4),
              (''easySolved'', v5), (''mediumSolved'', v6), (''hardSolved'', v7),
              (''acceptanceRate'', v8), (''ranking'', v9), (''reputation'', v10),
              (''contributionPoints'', v11), (''streak'', v12), (''totalActiveDays'', v13),
              (''submissionCalendar'', v14)]
   = Inr (full_report u [v1, v2, v3, v4, v5, v6, v7, v8, v9, v10, v11, v12, v13, v14])"
  by (simp add: update_report_def leetcode_template_def template_report_def dict_update_def
      full_report_def)

lemma report_field_full:
  "report_field (full_report u [v1, v2, v3, v4, v5, v6, v7, v8, v9, v10, v11, v12, v13, v14]) k =
     map_of [(''error'', v1), (''errorMessage'', v2), (''username'', v3), (''totalSolved'', v4),
              (''easySolved'', v5), (''mediumSolved'', v6), (''hardSolved'', v7),
              (''acceptanceRate'', v8), (''ranking'', v9), (''reputation'', v10),
              (''contributionPoints'', v11), (''streak'', v12), (''totalActiveDays'', v13),
              (''submissionCalendar'', v14)] k"
  by (simp add: report_field_def full_report_def template_report_def)


lemma py_or_Inl [simp]: "py_or (Inl e) mb = Inl e"
  by (simp add: py_or_def)





lemma messages_truthy: "truthy (JStr partial_message)" "truthy (JStr missing_message)"
  by (simp_all add: partial_message_def missing_message_def)


lemma ranking_scenario:
  "extract_stats_from_normalized lib
      (JDict [(''matchedUser'', JDict [(''profile'', JDict [(''ranking'', JInt 4821)])])]) u
   = Inr (full_report u
        [JBool True, JStr partial_message, JStr u, JInt 0, JInt 0, JInt 0, JInt 0, JInt 0,
         JInt 4821, JInt 0, JInt 0, JInt 0, JInt 0, JDict []])"
  using messages_truthy
  by (simp add: extract_stats_from_normalized_def get_or_empty_def locate_ac_def ac_of_def
      no_solved_def decode_calendar_def resolve_activity_def error_message_def has_stats_def
      prof_field_def final_update)

lemma stats_payload_extract:
  assumes "\<forall>row\<in>set rows. readable_row row"
  shows "\<exists>env. extract_stats_from_normalized lib (stats_payload rows) u = Inr env
     \<and> report_field env ''totalSolved'' = Some (JInt (last_count lib Total rows 0))
     \<and> report_field env ''easySolved'' = Some (JInt (last_count lib Easy rows 0))
     \<and> report_field env ''mediumSolved'' = Some (JInt (last_count lib Medium rows 0))
     \<and> report_field env ''hardSolved'' = Some (JInt (last_count lib Hard rows 0))"
proof -
  have l: "locate_ac (JDict [(''submitStatsGlobal'', JDict [(''acSubmissionNum'', JList rows)])])
     = Inr (JList rows)"
    by (simp add: locate_ac_def ac_of_def get_or_empty_def)
  show ?thesis
    by (simp add: extract_stats_from_normalized_def stats_payload_def l count_rows_last [OF assms]
      get_or_empty_def decode_calendar_def resolve_activity_def error_message_def
      prof_field_def final_update no_solved_def report_field_full py_bind_def)
qed

section \<open>Key distinctness of the normalizer's output\<close>

lemma proper_dict_conv: "proper_dict x \<longleftrightarrow> (\<exists>d. x = JDict d \<and> distinct (map fst d))"
  by (cases x) (simp_all add: proper_dict_def)

lemma py_setitem_proper: "proper_dict x \<Longrightarrow> py_setitem x k v = Inr y \<Longrightarrow> proper_dict y"
  by (auto simp: proper_dict_conv distinct_update)

lemma py_setdefault_proper:
  "proper_dict x \<Longrightarrow> py_setdefault x k v = Inr (y, w) \<Longrightarrow> proper_dict y"
  by (auto simp: proper_dict_conv distinct_update split: option.splits)

lemma setitem_in_proper: "proper_dict x \<Longrightarrow> setitem_in x key k v = Inr y \<Longrightarrow> proper_dict y"
  unfolding setitem_in_def py_bind_eq_Inr using py_setitem_proper by blast

lemma preserve_key_proper:
  assumes "proper_dict x" "preserve_key k x = Inr y"
  shows "proper_dict y"
proof -
  from assms(2) obtain mu b where
    r: "(if b then py_bind (py_item mu k) (\<lambda>v. setitem_in x ''matchedUser'' k v) else Inr x) = Inr y"
    by (auto simp: preserve_key_def py_bind_eq_Inr)
  show ?thesis
  proof (cases b)
    case False
    with r assms(1) show ?thesis by simp
  next
    case True
    with r obtain v where "setitem_in x ''matchedUser'' k v = Inr y"
      by (auto simp: py_bind_eq_Inr)
    with assms(1) show ?thesis by (rule setitem_in_proper)
  qed
qed

lemma store_matched_user_proper:
  assumes "proper_dict x" "store_matched_user mu x = Inr y"
  shows "proper_dict y"
proof (cases "truthy mu \<and> is_dict mu")
  case False
  with assms show ?thesis by (simp add: store_matched_user_def)
next
  case True
  with assms(2) obtain o1 o2 where
    "py_setitem x ''matchedUser'' mu = Inr o1" "preserve_key ''submitStatsGlobal'' o1 = Inr o2"
    "preserve_key ''submitStats'' o2 = Inr y"
    by (auto simp: store_matched_user_def py_bind_eq_Inr)
  with assms(1) show ?thesis
    by (meson py_setitem_proper preserve_key_proper)
qed

lemma store_top_level_stats_proper:
  assumes "proper_dict x" "store_top_level_stats k j x = Inr y"
  shows "proper_dict y"
proof -
  from assms(2) obtain b where b: "py_in k j = Inr b"
    by (auto simp: store_top_level_stats_def py_bind_eq_Inr)
  show ?thesis
  proof (cases b)
    case False
    with assms b show ?thesis by (simp add: store_top_level_stats_def)
  next
    case True
    with assms(2) b obtain v out1 inner inner' where
      "py_setdefault x ''matchedUser'' (JDict []) = Inr (out1, inner)"
      "py_setitem out1 ''matchedUser'' inner' = Inr y"
      by (auto simp: store_top_level_stats_def py_bind_eq_Inr)
    with assms(1) show ?thesis
      by (meson py_setdefault_proper py_setitem_proper)
  qed
qed

lemma store_contest_ranking_proper:
  assumes "proper_dict x" "store_contest_ranking ucr x = Inr y"
  shows "proper_dict y"
proof (cases "truthy ucr")
  case False
  with assms show ?thesis by (simp add: store_contest_ranking_def)
next
  case True
  with assms(2) have "py_setitem x ''userContestRanking'' ucr = Inr y"
    by (simp add: store_contest_ranking_def)
  with assms(1) show ?thesis by (rule py_setitem_proper)
qed

lemma store_calendar_proper:
  assumes "proper_dict x" "store_calendar j x = Inr y"
  shows "proper_dict y"
proof -
  from assms(2) obtain b where b: "py_in ''submissionCalendar'' j = Inr b"
    by (auto simp: store_calendar_def py_bind_eq_Inr)
  show ?thesis
  proof (cases b)
    case False
    with assms b show ?thesis by (simp add: store_calendar_def)
  next
    case True
    with assms(2) b obtain out1 inner inner' where
      "py_setdefault x ''matchedUser'' (JDict []) = Inr (out1, inner)"
      "py_setitem out1 ''matchedUser'' inner' = Inr y"
      by (auto simp: store_calendar_def py_bind_eq_Inr)
    with assms(1) show ?thesis
      by (meson py_setdefault_proper py_setitem_proper)
  qed
qed

lemma copy_top_level_proper:
  "proper_dict x \<Longrightarrow> copy_top_level ks j x = Inr y \<Longrightarrow> proper_dict y"
proof (induction ks arbitrary: x)
  case Nil
  then show ?case by simp
next
  case (Cons k ks)
  from Cons.prems(2) obtain b x1 where
    x1: "(if b then py_bind (py_item j k) (\<lambda>v. py_setitem x k v) else Inr x) = Inr x1"
    and r: "copy_top_level ks j x1 = Inr y"
    by (auto simp: py_bind_eq_Inr)
  have "proper_dict x1"
  proof (cases b)
    case False
    with x1 Cons.prems(1) show ?thesis by simp
  next
    case True
    with x1 obtain v where "py_setitem x k v = Inr x1" by (auto simp: py_bind_eq_Inr)
    with Cons.prems(1) show ?thesis by (rule py_setitem_proper)
  qed
  then show ?case using r by (rule Cons.IH)
qed

lemma normalize_proper:
  assumes "normalize_leetcode_json j = Inr y"
  shows "proper_dict y"
proof (cases "is_dict j")
  case False
  with assms show ?thesis by (auto simp: normalize_leetcode_json_def proper_dict_def)
next
  case True
  have e: "proper_dict (JDict [])" by (simp add: proper_dict_def)
  from assms True obtain mu o1 o2 o3 ucr o4 o5 where
    "store_matched_user mu (JDict []) = Inr o1"
    "store_top_level_stats ''submitStatsGlobal'' j o1 = Inr o2"
    "store_top_level_stats ''submitStats'' j o2 = Inr o3"
    "store_contest_ranking ucr o3 = Inr o4"
    "store_calendar j o4 = Inr o5"
    "copy_top_level top_level_fields j o5 = Inr y"
    by (auto simp: normalize_leetcode_json_def py_bind_eq_Inr)
  then show ?thesis
    using e
    by (meson store_matched_user_proper store_top_level_stats_proper store_contest_ranking_proper
        store_calendar_proper copy_top_level_proper)
qed

section \<open>The claims about the normalizer\<close>

text \<open>
  Claim C2. The normalizer is idempotent. On every input it returns a dictionary; applied
  to that dictionary it returns a dictionary again, and the two bind every key to the same
  value. Both have distinct keys, so they are equal as Python dictionaries (only the
  insertion order of the top-level keys can differ).
\<close>

theorem normalize_idempotent:
  "\<exists>out out2. normalize_leetcode_json j = Inr (JDict out)
     \<and> normalize_leetcode_json (JDict out) = Inr (JDict out2)
     \<and> map_of out2 = map_of out
     \<and> distinct (map fst out) \<and> distinct (map fst out2)"
proof -
  obtain out where o: "normalize_leetcode_json j = Inr (JDict out)"
    using normalize_total by blast
  obtain out2 where o2: "normalize_leetcode_json (JDict out) = Inr (JDict out2)"
    and m: "map_of out2 = map_of out"
    using normalize_again [OF o] by blast
  have "distinct (map fst out)" "distinct (map fst out2)"
    using normalize_proper [OF o] normalize_proper [OF o2] by (simp_all add: proper_dict_def)
  with o o2 m show ?thesis by blast
qed

text \<open>
  Claim C5 does not hold of the code. On the input
  \<open>{"matchedUser": {"submitStatsGlobal": {"acSubmissionNum": [{"difficulty": "All", "count": 5}]}},
  "submitStatsGlobal": {}}\<close> the user record is found first, with its populated
  \<open>submitStatsGlobal\<close>; the loop over the two key names then assigns the empty top-level
  \<open>submitStatsGlobal\<close> over it, and the output keeps the empty one. The loop's own comment
  says the key is to be preserved, and the calendar, handled next, is stored with a
  non-overwriting \<open>setdefault\<close>.
\<close>

theorem normalize_overwrites_populated_stats:
  "normalize_leetcode_json
     (JDict [(''matchedUser'',
              JDict [(''submitStatsGlobal'',
                      JDict [(''acSubmissionNum'',
                              JList [JDict [(''difficulty'', JStr ''All''), (''count'', JInt 5)]])])]),
             (''submitStatsGlobal'', JDict [])])
   = Inr (JDict [(''matchedUser'', JDict [(''submitStatsGlobal'', JDict [])])])"
  by code_simp

text \<open>
  Claim C6. The normalizer raises on no input: it always returns a dictionary. An input
  that is not a dictionary gives the empty dictionary. On a dictionary, \<open>matchedUser\<close> is
  set exactly when a non-empty user dictionary is found or one of the top-level keys
  \<open>submitStatsGlobal\<close>, \<open>submitStats\<close>, \<open>submissionCalendar\<close> is present;
  \<open>userContestRanking\<close> is set exactly when a truthy ranking is found; each loose
  top-level field is set exactly when the input has it, with the input's value; no other key
  is set. With none of the keys that can hold a user record (or a ranking) in the input,
  none is found.
\<close>

theorem normalize_total_absent_unset:
  "(\<exists>out. normalize_leetcode_json j = Inr (JDict out))
   \<and> (\<not> is_dict j \<longrightarrow> normalize_leetcode_json j = Inr (JDict []))
   \<and> (\<forall>d mu ucr out.
         j = JDict d \<and> find_matched_user j = Inr mu \<and> find_contest_ranking j = Inr ucr
         \<and> normalize_leetcode_json j = Inr (JDict out) \<longrightarrow>
           (map_of out ''matchedUser'' \<noteq> None \<longleftrightarrow>
              (truthy mu \<and> is_dict mu) \<or> map_of d ''submitStatsGlobal'' \<noteq> None
              \<or> map_of d ''submitStats'' \<noteq> None \<or> map_of d ''submissionCalendar'' \<noteq> None)
         \<and> (map_of out ''userContestRanking'' \<noteq> None \<longleftrightarrow> truthy ucr)
         \<and> (\<forall>k\<in>set top_level_fields. map_of out k = map_of d k)
         \<and> (\<forall>k. map_of out k \<noteq> None \<longrightarrow>
               k = ''matchedUser'' \<or> k = ''userContestRanking'' \<or> k \<in> set top_level_fields))
   \<and> (\<forall>d. j = JDict d \<and> map_of d ''data'' = None \<and> map_of d ''matchedUser'' = None
           \<and> map_of d ''user'' = None \<and> map_of d ''profile'' = None \<longrightarrow>
           find_matched_user j = Inr JNull)
   \<and> (\<forall>d. j = JDict d \<and> map_of d ''data'' = None \<and> map_of d ''userContestRanking'' = None
           \<and> map_of d ''userContestRankingHistory'' = None \<longrightarrow>
           find_contest_ranking j = Inr JNull)"
proof -
  have c3: "(map_of out ''matchedUser'' \<noteq> None \<longleftrightarrow>
              (truthy mu \<and> is_dict mu) \<or> map_of d ''submitStatsGlobal'' \<noteq> None
              \<or> map_of d ''submitStats'' \<noteq> None \<or> map_of d ''submissionCalendar'' \<noteq> None)
         \<and> (map_of out ''userContestRanking'' \<noteq> None \<longleftrightarrow> truthy ucr)
         \<and> (\<forall>k\<in>set top_level_fields. map_of out k = map_of d k)
         \<and> (\<forall>k. map_of out k \<noteq> None \<longrightarrow>
               k = ''matchedUser'' \<or> k = ''userContestRanking'' \<or> k \<in> set top_level_fields)"
    if a: "j = JDict d \<and> find_matched_user j = Inr mu \<and> find_contest_ranking j = Inr ucr
         \<and> normalize_leetcode_json j = Inr (JDict out)" for d mu ucr out
  proof -
    from a have mu: "find_matched_user (JDict d) = Inr mu"
      and ucr: "find_contest_ranking (JDict d) = Inr ucr"
      and o: "normalize_leetcode_json (JDict d) = Inr (JDict out)" by auto
    from normalize_char [OF mu ucr] o
    have m: "\<And>k. map_of out k =
          (if k = ''matchedUser''
           then (if user_present d mu then Some (JDict (user_fields d mu)) else None)
           else if k = ''userContestRanking'' then (if truthy ucr then Some ucr else None)
           else if k \<in> set top_level_fields then map_of d k
           else None)"
      by auto
    have 1: "map_of out ''matchedUser'' \<noteq> None \<longleftrightarrow>
              (truthy mu \<and> is_dict mu) \<or> map_of d ''submitStatsGlobal'' \<noteq> None
              \<or> map_of d ''submitStats'' \<noteq> None \<or> map_of d ''submissionCalendar'' \<noteq> None"
      by (simp add: m user_present_def stored_user_def)
    have 2: "map_of out ''userContestRanking'' \<noteq> None \<longleftrightarrow> truthy ucr"
      by (simp add: m)
    have 3: "\<forall>k\<in>set top_level_fields. map_of out k = map_of d k"
      by (auto simp: m top_level_fields_def)
    have 4: "\<forall>k. map_of out k \<noteq> None \<longrightarrow>
               k = ''matchedUser'' \<or> k = ''userContestRanking'' \<or> k \<in> set top_level_fields"
      by (auto simp: m split: if_splits)
    from 1 2 3 4 show ?thesis by (intro conjI)
  qed
  have c4: "find_matched_user j = Inr JNull"
    if "j = JDict d \<and> map_of d ''data'' = None \<and> map_of d ''matchedUser'' = None
           \<and> map_of d ''user'' = None \<and> map_of d ''profile'' = None" for d
    using that by (simp add: find_matched_user_def has_data_dict_total)
  have c5: "find_contest_ranking j = Inr JNull"
    if "j = JDict d \<and> map_of d ''data'' = None \<and> map_of d ''userContestRanking'' = None
           \<and> map_of d ''userContestRankingHistory'' = None" for d
    using that by (simp add: find_contest_ranking_def has_data_dict_total)
  show ?thesis
  proof (intro conjI)
    show "\<exists>out. normalize_leetcode_json j = Inr (JDict out)"
      by (rule normalize_total)
    show "\<not> is_dict j \<longrightarrow> normalize_leetcode_json j = Inr (JDict [])"
      by (intro impI) (erule normalize_not_dict)
    show "\<forall>d mu ucr out.
         j = JDict d \<and> find_matched_user j = Inr mu \<and> find_contest_ranking j = Inr ucr
         \<and> normalize_leetcode_json j = Inr (JDict out) \<longrightarrow>
           (map_of out ''matchedUser'' \<noteq> None \<longleftrightarrow>
              (truthy mu \<and> is_dict mu) \<or> map_of d ''submitStatsGlobal'' \<noteq> None
              \<or> map_of d ''submitStats'' \<noteq> None \<or> map_of d ''submissionCalendar'' \<noteq> None)
         \<and> (map_of out ''userContestRanking'' \<noteq> None \<longleftrightarrow> truthy ucr)
         \<and> (\<forall>k\<in>set top_level_fields. map_of out k = map_of d k)
         \<and> (\<forall>k. map_of out k \<noteq> None \<longrightarrow>
               k = ''matchedUser'' \<or> k = ''userContestRanking'' \<or> k \<in> set top_level_fields)"
      by (intro allI impI) (erule c3)
    show "\<forall>d. j = JDict d \<and> map_of d ''data'' = None \<and> map_of d ''matchedUser'' = None
           \<and> map_of d ''user'' = None \<and> map_of d ''profile'' = None \<longrightarrow>
           find_matched_user j = Inr JNull"
      by (intro allI impI) (erule c4)
    show "\<forall>d. j = JDict d \<and> map_of d ''data'' = None \<and> map_of d ''userContestRanking'' = None
           \<and> map_of d ''userContestRankingHistory'' = None \<longrightarrow>
           find_contest_ranking j = Inr JNull"
      by (intro allI impI) (erule c5)
  qed
qed

section \<open>The claims about the extractor\<close>

lemma row_count_fallback:
  assumes "\<not> truthy (case map_of r ''count'' of None \<Rightarrow> JNull | Some v \<Rightarrow> v)"
  shows "row_count lib (JDict r) =
     (case py_bind (py_or (py_get (JDict r) ''submissions'') (Inr (JInt 0))) (py_int lib) of
        Inl e \<Rightarrow> 0 | Inr c \<Rightarrow> c)"
  using assms by (simp add: row_count_def)

lemma py_int_falsy: "py_int lib n = Inr k \<Longrightarrow> \<not> truthy n \<Longrightarrow> k = 0"
  by (cases "(lib, n)" rule: py_int.cases) (auto simp: trunc_def split: if_splits)

text \<open>
  Claim C10. In a row \<open>{"difficulty": d, "count": 0, "submissions": n}\<close> whose \<open>n\<close>
  \<open>int\<close> converts to \<open>k\<close>, the parsed count is \<open>k\<close>, and the loop body stores \<open>k\<close>
  in the field the label \<open>d\<close> classifies to. More generally, whenever \<open>count\<close> is absent
  or falsy the parsed count is that of \<open>submissions\<close> (zero when that is absent, falsy or
  not convertible). This holds whatever \<open>int\<close> and \<open>str.lower\<close> do on strings.
\<close>

theorem row_count_uses_submissions:
  "(py_int lib n = Inr k \<longrightarrow>
      row_count lib (JDict [(''difficulty'', d), (''count'', JInt 0), (''submissions'', n)]) = k
    \<and> (\<forall>l s. row_label (JDict [(''difficulty'', d), (''count'', JInt 0), (''submissions'', n)]) = Some l
          \<longrightarrow> count_row lib (JDict [(''difficulty'', d), (''count'', JInt 0), (''submissions'', n)]) s
              = Inr (put (classify lib l) k s)))
   \<and> (\<not> truthy (case map_of r ''count'' of None \<Rightarrow> JNull | Some v \<Rightarrow> v) \<longrightarrow>
        row_count lib (JDict r) =
          (case py_bind (py_or (py_get (JDict r) ''submissions'') (Inr (JInt 0))) (py_int lib) of
             Inl e \<Rightarrow> 0 | Inr c \<Rightarrow> c))"
proof (intro conjI impI allI)
  let ?row = "JDict [(''difficulty'', d), (''count'', JInt 0), (''submissions'', n)]"
  assume n: "py_int lib n = Inr k"
  show c: "row_count lib ?row = k"
    using n py_int_falsy [OF n] by (simp add: row_count_def)
  fix l s
  assume l: "row_label ?row = Some l"
  then have "readable_row ?row" by (simp add: readable_row_def)
  from count_row_readable [OF this, of lib s] l c
  show "count_row lib ?row s = Inr (put (classify lib l) k s)"
    by (simp add: row_class_def)
next
  assume "\<not> truthy (case map_of r ''count'' of None \<Rightarrow> JNull | Some v \<Rightarrow> v)"
  then show "row_count lib (JDict r) =
          (case py_bind (py_or (py_get (JDict r) ''submissions'') (Inr (JInt 0))) (py_int lib) of
             Inl e \<Rightarrow> 0 | Inr c \<Rightarrow> c)"
    by (rule row_count_fallback)
qed

section \<open>The extractor returns on well-typed payloads\<close>
















lemma medium_row_facts:
  assumes "str_lower lib ''Medium'' = ''medium''" "int_of_str lib ''12'' = Some 12"
  shows "readable_row medium_row" "is_dict medium_row" "row_class lib medium_row = Medium"
    "row_count lib medium_row = 12"
  using assms
  by (simp_all add: medium_row_def readable_row_def row_label_def row_class_def classify_def
      row_count_def)

lemma medium_scenario:
  assumes "str_lower lib ''Medium'' = ''medium''" "int_of_str lib ''12'' = Some 12"
  shows "\<exists>env. extract_stats_from_normalized lib (stats_payload [medium_row]) u = Inr env
     \<and> report_field env ''totalSolved'' = Some (JInt 0)
     \<and> report_field env ''easySolved'' = Some (JInt 0)
     \<and> report_field env ''mediumSolved'' = Some (JInt 12)
     \<and> report_field env ''hardSolved'' = Some (JInt 0)"
proof -
  have r: "\<forall>row\<in>set [medium_row]. readable_row row"
    by (simp add: medium_row_facts [OF assms])
  show ?thesis
    using stats_payload_extract [OF r, of lib u]
    by (simp add: last_count_def medium_row_facts [OF assms])
qed

lemma row_count_non_numeric:
  assumes "map_of r ''count'' = Some v" "truthy v" "py_int lib v = Inl e"
  shows "row_count lib (JDict r) = 0"
  using assms by (simp add: row_count_def)

lemma count_row_unaffected:
  assumes "readable_row row" "\<not> is_dict row \<or> row_class lib row = Unrecognized"
  shows "count_row lib row s = Inr s"
  using count_row_readable [OF assms(1), of lib s] assms(2) by (auto simp: put_def)

text \<open>
  Claim C4, as stated, fails twice: of two rows labelled Easy with counts 3 and 4 the
  report keeps 4, not their sum, and a row without a difficulty label sets the total.
\<close>

theorem solved_counts_sum_counterexample:
  "solved_field sample_lib
     (stats_payload [JDict [(''difficulty'', JStr ''Easy''), (''count'', JInt 3)],
                     JDict [(''difficulty'', JStr ''Easy''), (''count'', JInt 4)],
                     JDict [(''count'', JInt 5)]]) ''bob'' ''easySolved'' = Some (JInt 4)
   \<and> solved_field sample_lib
     (stats_payload [JDict [(''difficulty'', JStr ''Easy''), (''count'', JInt 3)],
                     JDict [(''difficulty'', JStr ''Easy''), (''count'', JInt 4)],
                     JDict [(''count'', JInt 5)]]) ''bob'' ''totalSolved'' = Some (JInt 5)"
  by code_simp

text \<open>
  Claim C4, amended. When every dictionary row has a label that is a string, absent or
  falsy, each of the four counts is the parsed count of the last row classified to it
  (substring match on the lower-cased label, "all" or an absent or empty label to total,
  then easy, medium, hard) and keeps its initial value, zero in the extractor, when no row
  is; the report of a payload holding the array carries these four numbers. Rows that are
  not dictionaries and rows whose label matches none of the four words change nothing. A
  count that \<open>int\<close> rejects is read as zero. Given that \<open>"Medium".lower()\<close> is
  \<open>"medium"\<close> and \<open>int("12")\<close> is 12, the single row
  \<open>{"difficulty": "Medium", "count": "12"}\<close> gives \<open>mediumSolved = 12\<close> and zero
  elsewhere. Everything else holds whatever \<open>int\<close> and \<open>str.lower\<close> do on strings.
\<close>

theorem solved_counts_last_row:
  "((\<forall>row\<in>set rows. readable_row row) \<longrightarrow>
      count_rows lib rows s =
        Inr \<lparr>total = last_count lib Total rows (total s), easy = last_count lib Easy rows (easy s),
             medium = last_count lib Medium rows (medium s),
             hard = last_count lib Hard rows (hard s)\<rparr>
    \<and> (\<exists>env. extract_stats_from_normalized lib (stats_payload rows) u = Inr env
          \<and> report_field env ''totalSolved'' = Some (JInt (last_count lib Total rows 0))
          \<and> report_field env ''easySolved'' = Some (JInt (last_count lib Easy rows 0))
          \<and> report_field env ''mediumSolved'' = Some (JInt (last_count lib Medium rows 0))
          \<and> report_field env ''hardSolved'' = Some (JInt (last_count lib Hard rows 0))))
   \<and> (readable_row row \<and> (\<not> is_dict row \<or> row_class lib row = Unrecognized) \<longrightarrow>
        count_row lib row s = Inr s)
   \<and> (\<forall>v e. map_of r ''count'' = Some v \<and> truthy v \<and> py_int lib v = Inl e \<longrightarrow>
        row_count lib (JDict r) = 0)
   \<and> (str_lower lib ''Medium'' = ''medium'' \<and> int_of_str lib ''12'' = Some 12 \<longrightarrow>
        (\<exists>env. extract_stats_from_normalized lib
               (stats_payload [JDict [(''difficulty'', JStr ''Medium''), (''count'', JStr ''12'')]]) u
             = Inr env
          \<and> report_field env ''totalSolved'' = Some (JInt 0)
          \<and> report_field env ''easySolved'' = Some (JInt 0)
          \<and> report_field env ''mediumSolved'' = Some (JInt 12)
          \<and> report_field env ''hardSolved'' = Some (JInt 0)))"
proof (intro conjI)
  show "(\<forall>row\<in>set rows. readable_row row) \<longrightarrow>
      count_rows lib rows s =
        Inr \<lparr>total = last_count lib Total rows (total s), easy = last_count lib Easy rows (easy s),
             medium = last_count lib Medium rows (medium s),
             hard = last_count lib Hard rows (hard s)\<rparr>
    \<and> (\<exists>env. extract_stats_from_normalized lib (stats_payload rows) u = Inr env
          \<and> report_field env ''totalSolved'' = Some (JInt (last_count lib Total rows 0))
          \<and> report_field env ''easySolved'' = Some (JInt (last_count lib Easy rows 0))
          \<and> report_field env ''mediumSolved'' = Some (JInt (last_count lib Medium rows 0))
          \<and> report_field env ''hardSolved'' = Some (JInt (last_count lib Hard rows 0)))"
    using count_rows_last [of rows lib s] stats_payload_extract [of rows lib u] by blast
  show "readable_row row \<and> (\<not> is_dict row \<or> row_class lib row = Unrecognized) \<longrightarrow>
        count_row lib row s = Inr s"
    using count_row_unaffected [of row lib s] by blast
  show "\<forall>v e. map_of r ''count'' = Some v \<and> truthy v \<and> py_int lib v = Inl e \<longrightarrow>
        row_count lib (JDict r) = 0"
    using row_count_non_numeric [of r _ lib] by blast
  show "str_lower lib ''Medium'' = ''medium'' \<and> int_of_str lib ''12'' = Some 12 \<longrightarrow>
        (\<exists>env. extract_stats_from_normalized lib
               (stats_payload [JDict [(''difficulty'', JStr ''Medium''), (''count'', JStr ''12'')]]) u
             = Inr env
          \<and> report_field env ''totalSolved'' = Some (JInt 0)
          \<and> report_field env ''easySolved'' = Some (JInt 0)
          \<and> report_field env ''mediumSolved'' = Some (JInt 12)
          \<and> report_field env ''hardSolved'' = Some (JInt 0))"
    using medium_scenario [of lib u] unfolding medium_row_def by blast
qed






section \<open>The claim about the error flag\<close>



theorem row_count_uses_submissions_witness:
  "py_int sample_lib (JStr ''7'') = Inr 7
   \<and> row_count sample_lib
        (JDict [(''difficulty'', JStr ''Hard''), (''count'', JInt 0), (''submissions'', JStr ''7'')]) = 7
   \<and> count_row sample_lib
        (JDict [(''difficulty'', JStr ''Hard''), (''count'', JInt 0), (''submissions'', JStr ''7'')])
        no_solved = Inr (no_solved\<lparr>hard := 7\<rparr>)
   \<and> row_count sample_lib (JDict [(''submissions'', JInt 3)]) = 3"
proof -
  let ?row = "JDict [(''difficulty'', JStr ''Hard''), (''count'', JInt 0), (''submissions'', JStr ''7'')]"
  have h1: "py_int sample_lib (JStr ''7'') = Inr 7" by code_simp
  have h2: "row_label ?row = Some ''Hard''" by code_simp
  have h3: "\<not> truthy (case map_of [(''submissions'', JInt 3)] ''count'' of None \<Rightarrow> JNull | Some v \<Rightarrow> v)"
    by simp
  note T = row_count_uses_submissions
    [of sample_lib "JStr ''7''" 7 "JStr ''Hard''" "[(''submissions'', JInt 3)]"]
  have a: "row_count sample_lib ?row = 7"
    using T [THEN conjunct1, rule_format, OF h1, THEN conjunct1] .
  have b: "count_row sample_lib ?row no_solved = Inr (put (classify sample_lib ''Hard'') 7 no_solved)"
    using T [THEN conjunct1, rule_format, OF h1, THEN conjunct2, rule_format, OF h2] .
  have c: "classify sample_lib ''Hard'' = Hard" by code_simp
  have d: "row_count sample_lib (JDict [(''submissions'', JInt 3)]) =
          (case py_bind (py_or (py_get (JDict [(''submissions'', JInt 3)]) ''submissions'')
             (Inr (JInt 0))) (py_int sample_lib) of Inl e \<Rightarrow> 0 | Inr c \<Rightarrow> c)"
    using T [THEN conjunct2, rule_format, OF h3] .
  have e: "(case py_bind (py_or (py_get (JDict [(''submissions'', JInt 3)]) ''submissions'')
             (Inr (JInt 0))) (py_int sample_lib) of Inl e \<Rightarrow> 0 | Inr c \<Rightarrow> c) = (3::int)"
    by simp
  show ?thesis
    using h1 a b c d e by (simp add: put_def)
qed

theorem solved_counts_last_row_witness:
  "readable_row (JDict [(''difficulty'', JStr ''Easy''), (''count'', JInt 3)])
   \<and> readable_row (JDict [(''difficulty'', JStr ''EASY''), (''count'', JStr ''4'')])
   \<and> readable_row (JDict [(''difficulty'', JStr ''Expert''), (''count'', JInt 9)])
   \<and> count_rows sample_lib
         [JDict [(''difficulty'', JStr ''Easy''), (''count'', JInt 3)],
          JDict [(''difficulty'', JStr ''EASY''), (''count'', JStr ''4'')],
          JDict [(''difficulty'', JStr ''Expert''), (''count'', JInt 9)]] no_solved
       = Inr \<lparr>total = 0, easy = 4, medium = 0, hard = 0\<rparr>
   \<and> count_row sample_lib (JDict [(''difficulty'', JStr ''Expert''), (''count'', JInt 9)]) no_solved
       = Inr no_solved
   \<and> row_count sample_lib (JDict [(''difficulty'', JStr ''Hard''), (''count'', JStr ''many'')]) = 0
   \<and> solved_field sample_lib
         (stats_payload [JDict [(''difficulty'', JStr ''Medium''), (''count'', JStr ''12'')]])
         ''bob'' ''mediumSolved'' = Some (JInt 12)"
proof -
  let ?r1 = "JDict [(''difficulty'', JStr ''Easy''), (''count'', JInt 3)]"
  let ?r2 = "JDict [(''difficulty'', JStr ''EASY''), (''count'', JStr ''4'')]"
  let ?r3 = "JDict [(''difficulty'', JStr ''Expert''), (''count'', JInt 9)]"
  let ?rows = "[?r1, ?r2, ?r3]"
  let ?bad = "[(''difficulty'', JStr ''Hard''), (''count'', JStr ''many'')]"
  have r: "readable_row ?r1" "readable_row ?r2" "readable_row ?r3" by (code_simp+)
  then have h1: "\<forall>row\<in>set ?rows. readable_row row" by simp
  have h2: "readable_row ?r3 \<and> (\<not> is_dict ?r3 \<or> row_class sample_lib ?r3 = Unrecognized)"
    by code_simp
  have h3: "map_of ?bad ''count'' = Some (JStr ''many'')
      \<and> truthy (JStr ''many'') \<and> py_int sample_lib (JStr ''many'') = Inl ValueError"
    by code_simp
  have h4: "str_lower sample_lib ''Medium'' = ''medium'' \<and> int_of_str sample_lib ''12'' = Some 12"
    by code_simp
  note T = solved_counts_last_row [of ?rows sample_lib no_solved "''bob''" ?r3 ?bad]
  have a: "count_rows sample_lib ?rows no_solved =
        Inr \<lparr>total = last_count sample_lib Total ?rows (total no_solved),
             easy = last_count sample_lib Easy ?rows (easy no_solved),
             medium = last_count sample_lib Medium ?rows (medium no_solved),
             hard = last_count sample_lib Hard ?rows (hard no_solved)\<rparr>"
    using T [THEN conjunct1, THEN mp, OF h1, THEN conjunct1] .
  have v: "last_count sample_lib Total ?rows (total no_solved) = 0"
    "last_count sample_lib Easy ?rows (easy no_solved) = 4"
    "last_count sample_lib Medium ?rows (medium no_solved) = 0"
    "last_count sample_lib Hard ?rows (hard no_solved) = 0"
    by (code_simp+)
  have b: "count_row sample_lib ?r3 no_solved = Inr no_solved"
    using T [THEN conjunct2, THEN conjunct1, rule_format, OF h2] .
  have c: "row_count sample_lib (JDict ?bad) = 0"
    using T [THEN conjunct2, THEN conjunct2, THEN conjunct1, rule_format, OF h3] .
  obtain env where e: "extract_stats_from_normalized sample_lib
         (stats_payload [JDict [(''difficulty'', JStr ''Medium''), (''count'', JStr ''12'')]]) ''bob''
       = Inr env" "report_field env ''mediumSolved'' = Some (JInt 12)"
    using T [THEN conjunct2, THEN conjunct2, THEN conjunct2, rule_format, OF h4] by blast
  have d: "solved_field sample_lib
         (stats_payload [JDict [(''difficulty'', JStr ''Medium''), (''count'', JStr ''12'')]])
         ''bob'' ''mediumSolved'' = Some (JInt 12)"
    using e by (simp add: solved_field_def)
  show ?thesis
    using r a v b c d by simp
qed


theorem normalize_total_absent_unset_witness:
  "normalize_leetcode_json
     (JDict [(''data'', JDict [(''matchedUser'', JDict [(''username'', JStr ''bob'')])]),
             (''streak'', JInt 3)])
     = Inr (JDict [(''matchedUser'', JDict [(''username'', JStr ''bob'')]), (''streak'', JInt 3)])
   \<and> normalize_leetcode_json (JStr ''oops'') = Inr (JDict [])
   \<and> map_of [(''matchedUser'', JDict [(''username'', JStr ''bob'')]), (''streak'', JInt 3)]
        ''userContestRanking'' = None
   \<and> find_matched_user (JDict [(''streak'', JInt 3)]) = Inr JNull
   \<and> find_contest_ranking (JDict [(''streak'', JInt 3)]) = Inr JNull"
proof -
  let ?d = "[(''data'', JDict [(''matchedUser'', JDict [(''username'', JStr ''bob'')])]),
             (''streak'', JInt 3)]"
  let ?out = "[(''matchedUser'', JDict [(''username'', JStr ''bob'')]), (''streak'', JInt 3)]"
  have h1: "JDict ?d = JDict ?d \<and> find_matched_user (JDict ?d) = Inr (JDict [(''username'', JStr ''bob'')])
     \<and> find_contest_ranking (JDict ?d) = Inr JNull
     \<and> normalize_leetcode_json (JDict ?d) = Inr (JDict ?out)"
    by code_simp
  have h2: "\<not> is_dict (JStr ''oops'')" by simp
  have h3: "JDict [(''streak'', JInt 3)] = JDict [(''streak'', JInt 3)]
     \<and> map_of [(''streak'', JInt 3)] ''data'' = None
     \<and> map_of [(''streak'', JInt 3)] ''matchedUser'' = None
     \<and> map_of [(''streak'', JInt 3)] ''user'' = None
     \<and> map_of [(''streak'', JInt 3)] ''profile'' = None"
    by simp
  have h4: "JDict [(''streak'', JInt 3)] = JDict [(''streak'', JInt 3)]
     \<and> map_of [(''streak'', JInt 3)] ''data'' = None
     \<and> map_of [(''streak'', JInt 3)] ''userContestRanking'' = None
     \<and> map_of [(''streak'', JInt 3)] ''userContestRankingHistory'' = None"
    by simp
  note T1 = normalize_total_absent_unset [of "JDict ?d"]
  note T2 = normalize_total_absent_unset [of "JStr ''oops''"]
  note T3 = normalize_total_absent_unset [of "JDict [(''streak'', JInt 3)]"]
  have a: "map_of ?out ''userContestRanking'' \<noteq> None \<longleftrightarrow> truthy JNull"
    using T1 [THEN conjunct2, THEN conjunct2, THEN conjunct1, rule_format, OF h1] by (elim conjE)
  have b: "normalize_leetcode_json (JStr ''oops'') = Inr (JDict [])"
    using T2 [THEN conjunct2, THEN conjunct1, rule_format, OF h2] .
  have c: "find_matched_user (JDict [(''streak'', JInt 3)]) = Inr JNull"
    using T3 [THEN conjunct2, THEN conjunct2, THEN conjunct2, THEN conjunct1, rule_format, OF h3] .
  have d: "find_contest_ranking (JDict [(''streak'', JInt 3)]) = Inr JNull"
    using T3 [THEN conjunct2, THEN conjunct2, THEN conjunct2, THEN conjunct2, rule_format, OF h4] .
  show ?thesis
    using h1 a b c d by simp
qed

section \<open>The claim about the unified endpoint\<close>

text \<open>
  Claim C9. For every username, cache state and clock, the unified handler called with a
  platform that \<open>str.lower\<close> maps to one of the two aliases of a source returns what the
  dedicated handler of that source returns, with the same cache afterwards; in particular
  \<open>"cf"\<close> dispatches to the Codeforces handler. A platform that \<open>str.lower\<close> maps to
  none of the ten aliases raises \<open>HTTPException(404, "Unknown platform.")\<close> and leaves the
  cache as it was.
\<close>

theorem api_unified_dispatch:
  "(str_lower lib platform \<in> set [''leetcode'', ''lc''] \<longrightarrow>
      api_unified lib F c t_get t_set platform u = returned (api_leetcode F c t_get t_set u))
   \<and> (str_lower lib platform \<in> set [''codechef'', ''cc''] \<longrightarrow>
      api_unified lib F c t_get t_set platform u = returned (api_codechef F c t_get t_set u))
   \<and> (str_lower lib platform \<in> set [''duolingo'', ''duo''] \<longrightarrow>
      api_unified lib F c t_get t_set platform u = returned (api_duolingo F c t_get t_set u))
   \<and> (str_lower lib platform \<in> set [''codeforces'', ''cf''] \<longrightarrow>
      api_unified lib F c t_get t_set platform u = returned (api_cf F c t_get t_set u))
   \<and> (str_lower lib platform \<in> set [''hackerrank'', ''hr''] \<longrightarrow>
      api_unified lib F c t_get t_set platform u = returned (api_hr F c t_get t_set u))
   \<and> (str_lower lib ''cf'' = ''cf'' \<longrightarrow>
      api_unified lib F c t_get t_set ''cf'' u = returned (api_cf F c t_get t_set u))
   \<and> (str_lower lib platform \<notin> set platform_aliases \<longrightarrow>
      api_unified lib F c t_get t_set platform u = (c, Inl (HTTPException 404 ''Unknown platform.'')))"
proof (intro conjI impI)
  assume "str_lower lib platform \<in> set [''leetcode'', ''lc'']"
  then show "api_unified lib F c t_get t_set platform u = returned (api_leetcode F c t_get t_set u)"
    by (simp add: api_unified_def)
next
  assume "str_lower lib platform \<in> set [''codechef'', ''cc'']"
  then show "api_unified lib F c t_get t_set platform u = returned (api_codechef F c t_get t_set u)"
    by (auto simp: api_unified_def)
next
  assume "str_lower lib platform \<in> set [''duolingo'', ''duo'']"
  then show "api_unified lib F c t_get t_set platform u = returned (api_duolingo F c t_get t_set u)"
    by (auto simp: api_unified_def)
next
  assume "str_lower lib platform \<in> set [''codeforces'', ''cf'']"
  then show "api_unified lib F c t_get t_set platform u = returned (api_cf F c t_get t_set u)"
    by (auto simp: api_unified_def)
next
  assume "str_lower lib platform \<in> set [''hackerrank'', ''hr'']"
  then show "api_unified lib F c t_get t_set platform u = returned (api_hr F c t_get t_set u)"
    by (auto simp: api_unified_def)
next
  assume "str_lower lib ''cf'' = ''cf''"
  then show "api_unified lib F c t_get t_set ''cf'' u = returned (api_cf F c t_get t_set u)"
    by (simp add: api_unified_def)
next
  assume "str_lower lib platform \<notin> set platform_aliases"
  then show "api_unified lib F c t_get t_set platform u
      = (c, Inl (HTTPException 404 ''Unknown platform.''))"
    by (simp add: api_unified_def platform_aliases_def)
qed

theorem api_unified_dispatch_witness:
  "api_unified sample_lib sample_fetchers Map.empty 10 11 ''CF'' ''bob''
     = returned (api_cf sample_fetchers Map.empty 10 11 ''bob'')
   \<and> snd (api_unified sample_lib sample_fetchers Map.empty 10 11 ''CF'' ''bob'')
     = Inr (JDict [(''cf'', JStr ''bob'')])
   \<and> api_unified sample_lib sample_fetchers Map.empty 10 11 ''cf'' ''bob''
     = returned (api_cf sample_fetchers Map.empty 10 11 ''bob'')
   \<and> api_unified sample_lib sample_fetchers Map.empty 10 11 ''LeetCode'' ''bob''
     = returned (api_leetcode sample_fetchers Map.empty 10 11 ''bob'')
   \<and> api_unified sample_lib sample_fetchers Map.empty 10 11 ''cc'' ''bob''
     = returned (api_codechef sample_fetchers Map.empty 10 11 ''bob'')
   \<and> api_unified sample_lib sample_fetchers Map.empty 10 11 ''Duo'' ''bob''
     = returned (api_duolingo sample_fetchers Map.empty 10 11 ''bob'')
   \<and> api_unified sample_lib sample_fetchers Map.empty 10 11 ''hr'' ''bob''
     = returned (api_hr sample_fetchers Map.empty 10 11 ''bob'')
   \<and> api_unified sample_lib sample_fetchers Map.empty 10 11 ''spoj'' ''bob''
     = (Map.empty, Inl (HTTPException 404 ''Unknown platform.''))"
proof -
  have l: "str_lower sample_lib ''CF'' = ''cf''" "str_lower sample_lib ''LeetCode'' = ''leetcode''"
    "str_lower sample_lib ''cc'' = ''cc''" "str_lower sample_lib ''Duo'' = ''duo''"
    "str_lower sample_lib ''hr'' = ''hr''" "str_lower sample_lib ''spoj'' = ''spoj''"
    "str_lower sample_lib ''cf'' = ''cf''"
    by (simp_all add: sample_lib_def sample_lower_def)
  have h1: "str_lower sample_lib ''CF'' \<in> set [''codeforces'', ''cf'']" unfolding l by simp
  have h2: "str_lower sample_lib ''LeetCode'' \<in> set [''leetcode'', ''lc'']" unfolding l by simp
  have h3: "str_lower sample_lib ''cc'' \<in> set [''codechef'', ''cc'']" unfolding l by simp
  have h4: "str_lower sample_lib ''Duo'' \<in> set [''duolingo'', ''duo'']" unfolding l by simp
  have h5: "str_lower sample_lib ''hr'' \<in> set [''hackerrank'', ''hr'']" unfolding l by simp
  have h6: "str_lower sample_lib ''spoj'' \<notin> set platform_aliases"
    unfolding l by (simp add: platform_aliases_def)
  note T = api_unified_dispatch [of sample_lib _ sample_fetchers Map.empty 10 11 "''bob''"]
  have a: "api_unified sample_lib sample_fetchers Map.empty 10 11 ''CF'' ''bob''
     = returned (api_cf sample_fetchers Map.empty 10 11 ''bob'')"
    using T [of "''CF''", THEN conjunct2, THEN conjunct2, THEN conjunct2, THEN conjunct1,
        THEN mp, OF h1] .
  have b: "api_unified sample_lib sample_fetchers Map.empty 10 11 ''LeetCode'' ''bob''
     = returned (api_leetcode sample_fetchers Map.empty 10 11 ''bob'')"
    using T [of "''LeetCode''", THEN conjunct1, THEN mp, OF h2] .
  have c: "api_unified sample_lib sample_fetchers Map.empty 10 11 ''cc'' ''bob''
     = returned (api_codechef sample_fetchers Map.empty 10 11 ''bob'')"
    using T [of "''cc''", THEN conjunct2, THEN conjunct1, THEN mp, OF h3] .
  have d: "api_unified sample_lib sample_fetchers Map.empty 10 11 ''Duo'' ''bob''
     = returned (api_duolingo sample_fetchers Map.empty 10 11 ''bob'')"
    using T [of "''Duo''", THEN conjunct2, THEN conjunct2, THEN conjunct1, THEN mp, OF h4] .
  have e: "api_unified sample_lib sample_fetchers Map.empty 10 11 ''hr'' ''bob''
     = returned (api_hr sample_fetchers Map.empty 10 11 ''bob'')"
    using T [of "''hr''", THEN conjunct2, THEN conjunct2, THEN conjunct2, THEN conjunct2,
        THEN conjunct1, THEN mp, OF h5] .
  have g: "api_unified sample_lib sample_fetchers Map.empty 10 11 ''cf'' ''bob''
     = returned (api_cf sample_fetchers Map.empty 10 11 ''bob'')"
    using T [of "''cf''", THEN conjunct2, THEN conjunct2, THEN conjunct2, THEN conjunct2,
        THEN conjunct2, THEN conjunct1, THEN mp, OF l(7)] .
  have f: "api_unified sample_lib sample_fetchers Map.empty 10 11 ''spoj'' ''bob''
     = (Map.empty, Inl (HTTPException 404 ''Unknown platform.''))"
    using T [of "''spoj''", THEN conjunct2, THEN conjunct2, THEN conjunct2, THEN conjunct2,
        THEN conjunct2, THEN conjunct2, THEN mp, OF h6] .
  have v: "snd (returned (api_cf sample_fetchers Map.empty 10 11 ''bob''))
      = Inr (JDict [(''cf'', JStr ''bob'')])"
    by (simp add: returned_def api_cf_def get_cached_or_fetch_def cache_get_def sample_fetchers_def
        Let_def)
  show ?thesis
    using a b c d e f g v by simp
qed

end
